theory Spec2Isabelle
  imports Complex_Main "HOL-Library.Word" "HOL-Library.Sublist" "HOL-Library.Multiset"
begin

section \<open>The C++ library primitives the tools are written with\<close>

text \<open>
  The four tools (cpuinfo, meminfo, diskls, osinfo) read pseudo-files line by line and take
  them apart with \<^verbatim>\<open>std::string\<close> members, \<^verbatim>\<open>std::stoi\<close> and stream extraction.
  A file is a \<^typ>\<open>string\<close> (its bytes); what the library throws is a value of
  \<open>cpp_exception\<close>, carrying the text of \<^verbatim>\<open>what()\<close>.
\<close>

datatype cpp_exception = invalid_argument string | out_of_range string

fun what :: "cpp_exception \<Rightarrow> string" where
  "what (invalid_argument m) = m"
| "what (out_of_range m) = m"

text \<open>\<^verbatim>\<open>isspace\<close> and \<^verbatim>\<open>isdigit\<close> of the C locale.\<close>

definition isspace :: "char \<Rightarrow> bool" where
  "isspace c \<longleftrightarrow> c = CHR '' '' \<or> (9 \<le> (of_char c :: nat) \<and> (of_char c :: nat) \<le> 13)"

definition isdigit :: "char \<Rightarrow> bool" where
  "isdigit c \<longleftrightarrow> 48 \<le> (of_char c :: nat) \<and> (of_char c :: nat) \<le> 57"

text \<open>The value of a run of decimal digits.\<close>

definition digit_value :: "char \<Rightarrow> nat" where
  "digit_value c = of_char c - 48"

definition digits_value :: "string \<Rightarrow> nat" where
  "digits_value ds = foldl (\<lambda>n c. 10 * n + digit_value c) 0 ds"

text \<open>
  \<^verbatim>\<open>while (std::getline(file, line))\<close>: the lines of a file, without their terminators.
  A last line with no newline is still read; nothing follows a final newline.
\<close>

fun getlines :: "string \<Rightarrow> string list" where
  "getlines [] = []"
| "getlines (c # cs) =
     (if c = CHR 0x0A then [] # getlines cs
      else (case getlines cs of [] \<Rightarrow> [c] # [] | l # ls \<Rightarrow> (c # l) # ls))"

text \<open>
  \<^verbatim>\<open>find\<close>, \<^verbatim>\<open>find_first_not_of\<close>, \<^verbatim>\<open>find_last_not_of\<close>: the position found, or
  \<open>None\<close> for \<^verbatim>\<open>npos\<close>.
\<close>

fun find_index_opt :: "('a \<Rightarrow> bool) \<Rightarrow> 'a list \<Rightarrow> nat option" where
  "find_index_opt P [] = None"
| "find_index_opt P (x # xs) = (if P x then Some 0 else map_option Suc (find_index_opt P xs))"

definition find_char :: "char \<Rightarrow> string \<Rightarrow> nat option" where
  "find_char c s = find_index_opt (\<lambda>x. x = c) s"

definition find_first_not_of :: "string \<Rightarrow> string \<Rightarrow> nat option" where
  "find_first_not_of cs s = find_index_opt (\<lambda>x. x \<notin> set cs) s"

definition find_last_not_of :: "string \<Rightarrow> string \<Rightarrow> nat option" where
  "find_last_not_of cs s =
     map_option (\<lambda>i. length s - 1 - i) (find_index_opt (\<lambda>x. x \<notin> set cs) (rev s))"

fun find_str :: "string \<Rightarrow> string \<Rightarrow> nat option" where
  "find_str p [] = (if p = [] then Some 0 else None)"
| "find_str p (c # cs) =
     (if prefix p (c # cs) then Some 0 else map_option Suc (find_str p cs))"

text \<open>
  \<^verbatim>\<open>s.erase(s.find_last_not_of(cs) + 1)\<close>: with \<^verbatim>\<open>npos\<close> the sum wraps to 0 and the
  whole string goes. \<^verbatim>\<open>s.erase(0, s.find_first_not_of(cs))\<close>: with \<^verbatim>\<open>npos\<close> the
  whole string goes too.
\<close>

definition erase_after_last_not_of :: "string \<Rightarrow> string \<Rightarrow> string" where
  "erase_after_last_not_of cs s =
     take (case find_last_not_of cs s of None \<Rightarrow> 0 | Some i \<Rightarrow> i + 1) s"

definition erase_to_first_not_of :: "string \<Rightarrow> string \<Rightarrow> string" where
  "erase_to_first_not_of cs s =
     (case find_first_not_of cs s of None \<Rightarrow> [] | Some i \<Rightarrow> drop i s)"

text \<open>
  \<^verbatim>\<open>std::stoi(s)\<close>, base 10, as \<^verbatim>\<open>strtol\<close> reads it: leading white space, an optional
  sign, then digits. No digit: \<^verbatim>\<open>std::invalid_argument\<close>. A value outside the 32-bit
  \<^verbatim>\<open>int\<close>: \<^verbatim>\<open>std::out_of_range\<close>. What follows the digits is ignored.
\<close>

definition stoi :: "string \<Rightarrow> cpp_exception + int" where
  "stoi s =
     (let s1 = dropWhile isspace s;
          neg = (s1 \<noteq> [] \<and> hd s1 = CHR ''-'');
          s2 = (if s1 \<noteq> [] \<and> (hd s1 = CHR ''-'' \<or> hd s1 = CHR ''+'') then tl s1 else s1);
          ds = takeWhile isdigit s2
      in if ds = [] then Inl (invalid_argument ''stoi'')
         else let v = (if neg then - int (digits_value ds) else int (digits_value ds))
              in if v < - (2 ^ 31) \<or> 2 ^ 31 - 1 < v then Inl (out_of_range ''stoi'')
                 else Inr v)"

text \<open>
  \<^verbatim>\<open>stream >> word\<close> for a \<^verbatim>\<open>std::string\<close>: white space is skipped, then the characters
  up to the next white space are taken. \<open>None\<close> when nothing is left (the stream fails);
  otherwise the token and the rest of the input.
\<close>

definition extract_string :: "string \<Rightarrow> (string \<times> string) option" where
  "extract_string s =
     (let s1 = dropWhile isspace s
      in if s1 = [] then None
         else Some (takeWhile (\<lambda>c. \<not> isspace c) s1, dropWhile (\<lambda>c. \<not> isspace c) s1))"

text \<open>\<^verbatim>\<open>while (iss >> flag) v.push_back(flag)\<close>: every token of the input, in order.\<close>

function tokens :: "string \<Rightarrow> string list" where
  "tokens s = (case extract_string s of None \<Rightarrow> [] | Some (w, r) \<Rightarrow> w # tokens r)"
  by pat_completeness auto
termination
proof (relation "measure length")
  show "wf (measure length)" by simp
next
  fix s :: string and x2 w r
  assume "extract_string s = Some x2" and "(w, r) = x2"
  then have r: "r = dropWhile (\<lambda>c. \<not> isspace c) (dropWhile isspace s)"
    and ne: "dropWhile isspace s \<noteq> []"
    by (auto simp: extract_string_def Let_def split: if_splits)
  from ne have "\<not> isspace (hd (dropWhile isspace s))"
    by (rule hd_dropWhile)
  with ne have "length r < length (dropWhile isspace s)"
    unfolding r by (cases "dropWhile isspace s") (auto intro: le_imp_less_Suc length_dropWhile_le)
  also have "\<dots> \<le> length s" by (rule length_dropWhile_le)
  finally show "(r, s) \<in> measure length" by simp
qed


text \<open>
  \<^verbatim>\<open>stream >> n\<close> for a number. The stream first skips white space; when nothing is left
  the extraction is not attempted and \<^verbatim>\<open>n\<close> keeps what it held. Otherwise an optional
  sign and the digits are read: with no digit, 0 is stored and the stream fails; with a
  value too large, the largest value is stored and the stream fails. For an unsigned type
  a minus sign negates the value modulo \<open>2^w\<close>.
\<close>

datatype 'a extraction = Extracted 'a string | Failed 'a | NotAttempted

definition extract_unsigned :: "string \<Rightarrow> 'a::len word extraction" where
  "extract_unsigned s =
     (let s1 = dropWhile isspace s
      in if s1 = [] then NotAttempted
         else let neg = (hd s1 = CHR ''-'');
                  s2 = (if hd s1 = CHR ''-'' \<or> hd s1 = CHR ''+'' then tl s1 else s1);
                  ds = takeWhile isdigit s2
              in if ds = [] then Failed 0
                 else if 2 ^ LENGTH('a) \<le> digits_value ds then Failed (- 1)
                 else Extracted (if neg then - of_nat (digits_value ds)
                                 else of_nat (digits_value ds))
                                (dropWhile isdigit s2))"

text \<open>
  For an \<^verbatim>\<open>int\<close> the value is read as a \<^verbatim>\<open>long\<close> and then clamped to the 32-bit range,
  the stream failing when it had to be.
\<close>

definition extract_int :: "string \<Rightarrow> int extraction" where
  "extract_int s =
     (let s1 = dropWhile isspace s
      in if s1 = [] then NotAttempted
         else let neg = (hd s1 = CHR ''-'');
                  s2 = (if hd s1 = CHR ''-'' \<or> hd s1 = CHR ''+'' then tl s1 else s1);
                  ds = takeWhile isdigit s2
              in if ds = [] then Failed 0
                 else let v = (if neg then - int (digits_value ds) else int (digits_value ds))
                      in if v < - (2 ^ 31) then Failed (- (2 ^ 31))
                         else if 2 ^ 31 - 1 < v then Failed (2 ^ 31 - 1)
                         else Extracted v (dropWhile isdigit s2))"


text \<open>
  A chain \<^verbatim>\<open>iss >> a >> b\<close>: the stream is \<open>Some\<close> of the input left, or \<open>None\<close> once it
  has failed, and then every later extraction leaves its variable alone.
\<close>

definition stream_string :: "string option \<Rightarrow> string option" where
  "stream_string st = (case st of None \<Rightarrow> None | Some s \<Rightarrow> map_option snd (extract_string s))"

definition stream_unsigned :: "string option \<Rightarrow> 'a::len word \<Rightarrow> 'a word \<times> string option" where
  "stream_unsigned st old =
     (case st of
        None \<Rightarrow> (old, None)
      | Some s \<Rightarrow>
          (case extract_unsigned s of
             Extracted x r \<Rightarrow> (x, Some r)
           | Failed x \<Rightarrow> (x, None)
           | NotAttempted \<Rightarrow> (old, None)))"

text \<open>\<^verbatim>\<open>std::getline(file, s)\<close> once: the first line of the file, empty if there is none.\<close>

definition getline :: "string \<Rightarrow> string" where
  "getline file = takeWhile (\<lambda>c. c \<noteq> CHR 0x0A) file"

text \<open>
  \<^verbatim>\<open>s.substr(pos, n)\<close> with \<^verbatim>\<open>pos \<le> s.size()\<close>; the count \<open>n\<close> is a \<^verbatim>\<open>size_t\<close>, so a
  negative difference stands for a huge count.
\<close>

definition substr :: "string \<Rightarrow> nat \<Rightarrow> int \<Rightarrow> string" where
  "substr s pos n = take (nat (n mod 2 ^ 64)) (drop pos s)"

text \<open>
  A \<^verbatim>\<open>double\<close> that comes out of a division: a real number, or what IEEE arithmetic gives
  when the divisor is zero. Rounding to 53 bits is not modelled.
\<close>

datatype cdouble = Finite real | Infinity | NaN

section \<open>cpuinfo: the cpu-identity probe\<close>

text \<open>
  \<^verbatim>\<open>struct CpuInfo\<close>. The counters are C++ \<^verbatim>\<open>int\<close>s, modelled as \<^typ>\<open>int\<close>: they count
  lines of the file, and only a file of more than \<open>2^31\<close> lines would overflow them.
  \<^verbatim>\<open>cpu_mhz\<close> is a \<^verbatim>\<open>double\<close>, read here as the real number it stands for.
\<close>

record CpuInfo =
  model_name :: string
  vendor_id :: string
  cpu_family :: string
  model :: string
  stepping :: string
  microcode :: string
  cache_size :: string
  flags :: "string list"
  cpu_mhz :: real
  physical_cores :: int
  logical_cores :: int
  siblings :: int
  core_id :: int
  architecture :: string
  byte_order :: string
  virtualization :: string

definition CpuInfo_init :: CpuInfo where
  "CpuInfo_init =
     \<lparr> model_name = [], vendor_id = [], cpu_family = [], model = [], stepping = [],
       microcode = [], cache_size = [], flags = [], cpu_mhz = 0, physical_cores = 0,
       logical_cores = 0, siblings = 0, core_id = 0, architecture = [], byte_order = [],
       virtualization = [] \<rparr>"

text \<open>
  \<^verbatim>\<open>core_count[value]++\<close> on a \<^verbatim>\<open>std::map<std::string, int>\<close>: the map is a list of
  pairs with distinct keys; a new key enters with count 1.
\<close>

fun map_increment :: "(string \<times> int) list \<Rightarrow> string \<Rightarrow> (string \<times> int) list" where
  "map_increment [] k = [(k, 1)]"
| "map_increment ((k', n) # m) k =
     (if k' = k then (k', n + 1) # m else (k', n) # map_increment m k)"

text \<open>
  One turn of the \<^verbatim>\<open>while (std::getline(file, line))\<close> loop of
  \<^verbatim>\<open>CpuInfoUtil::getCpuInfo\<close>, on the record and the \<^verbatim>\<open>core_count\<close> map. The line
  is cut at its first colon; the key loses its trailing blanks and tabs, the value its
  leading ones.
  \<^verbatim>\<open>std::stod\<close> is the C library's \<^verbatim>\<open>strtod\<close>; it is a parameter of the model and may
  throw as \<^verbatim>\<open>std::stoi\<close> does. Nothing in the function catches what the two throw.
\<close>

definition cpuinfo_key_value :: "string \<Rightarrow> (string \<times> string) option" where
  "cpuinfo_key_value line =
     (case find_char CHR '':'' line of
        None \<Rightarrow> None
      | Some colon \<Rightarrow>
          Some (erase_after_last_not_of [CHR '' '', CHR 0x09] (take colon line),
                erase_to_first_not_of [CHR '' '', CHR 0x09] (drop (colon + 1) line)))"

definition cpuinfo_line ::
  "(string \<Rightarrow> cpp_exception + real) \<Rightarrow> string \<Rightarrow> CpuInfo \<times> (string \<times> int) list
     \<Rightarrow> cpp_exception + CpuInfo \<times> (string \<times> int) list" where
  "cpuinfo_line stod line st =
     (case cpuinfo_key_value line of
        None \<Rightarrow> Inr st
      | Some (key, val) \<Rightarrow>
          let info = fst st; core_count = snd st
          in if key = ''model name'' \<and> model_name info = [] then
               Inr (info\<lparr>model_name := val\<rparr>, core_count)
             else if key = ''vendor_id'' \<and> vendor_id info = [] then
               Inr (info\<lparr>vendor_id := val\<rparr>, core_count)
             else if key = ''cpu family'' \<and> cpu_family info = [] then
               Inr (info\<lparr>cpu_family := val\<rparr>, core_count)
             else if key = ''model'' \<and> model info = [] then
               Inr (info\<lparr>model := val\<rparr>, core_count)
             else if key = ''stepping'' \<and> stepping info = [] then
               Inr (info\<lparr>stepping := val\<rparr>, core_count)
             else if key = ''microcode'' \<and> microcode info = [] then
               Inr (info\<lparr>microcode := val\<rparr>, core_count)
             else if key = ''cache size'' \<and> cache_size info = [] then
               Inr (info\<lparr>cache_size := val\<rparr>, core_count)
             else if key = ''cpu MHz'' \<and> cpu_mhz info = 0 then
               (case stod val of
                  Inl e \<Rightarrow> Inl e
                | Inr d \<Rightarrow> Inr (info\<lparr>cpu_mhz := d\<rparr>, core_count))
             else if key = ''siblings'' then
               (case stoi val of
                  Inl e \<Rightarrow> Inl e
                | Inr n \<Rightarrow> Inr (info\<lparr>siblings := n\<rparr>, core_count))
             else if key = ''core id'' then
               Inr (info, map_increment core_count val)
             else if key = ''processor'' then
               Inr (info\<lparr>logical_cores := logical_cores info + 1\<rparr>, core_count)
             else if key = ''flags'' \<and> flags info = [] then
               Inr (info\<lparr>flags := tokens val\<rparr>, core_count)
             else Inr st)"

fun cpuinfo_loop ::
  "(string \<Rightarrow> cpp_exception + real) \<Rightarrow> string list \<Rightarrow> CpuInfo \<times> (string \<times> int) list
     \<Rightarrow> cpp_exception + CpuInfo \<times> (string \<times> int) list" where
  "cpuinfo_loop stod [] st = Inr st"
| "cpuinfo_loop stod (l # ls) st =
     (case cpuinfo_line stod l st of
        Inl e \<Rightarrow> Inl e
      | Inr st' \<Rightarrow> cpuinfo_loop stod ls st')"

text \<open>
  \<^verbatim>\<open>CpuInfoUtil::getCpuInfo\<close> on the text of \<^verbatim>\<open>/proc/cpuinfo\<close> (the empty text when the
  file cannot be opened): \<open>Inl\<close> is the exception that leaves the function.
\<close>

definition getCpuInfo ::
  "(string \<Rightarrow> cpp_exception + real) \<Rightarrow> string \<Rightarrow> cpp_exception + CpuInfo" where
  "getCpuInfo stod file =
     (case cpuinfo_loop stod (getlines file) (CpuInfo_init, []) of
        Inl e \<Rightarrow> Inl e
      | Inr (info, core_count) \<Rightarrow>
          let info1 = info\<lparr>physical_cores := int (length core_count)\<rparr>
          in Inr (if physical_cores info1 = 0
                  then info1\<lparr>physical_cores := logical_cores info1\<rparr>
                  else info1))"


section \<open>Command lines\<close>

text \<open>
  \<^verbatim>\<open>parseArgs\<close> either returns with the flags set or calls \<^verbatim>\<open>exit\<close>. An exit is its
  code with the lines written to standard error; the banners of \<^verbatim>\<open>--help\<close> and
  \<^verbatim>\<open>--version\<close> go to standard output and are not part of the model.
\<close>

datatype 'u parsed = Exit int "string list" | Continue 'u

definition RESET :: string where "RESET = CHR 0x1B # ''[0m''"
definition RED :: string where "RED = CHR 0x1B # ''[31m''"
definition YELLOW :: string where "YELLOW = CHR 0x1B # ''[33m''"

definition colorize :: "bool \<Rightarrow> string \<Rightarrow> string \<Rightarrow> string" where
  "colorize use_colors text color = (if \<not> use_colors then text else color @ text @ RESET)"

text \<open>The two lines every tool writes for an argument it does not know.\<close>

definition invalid_option :: "string \<Rightarrow> bool \<Rightarrow> string \<Rightarrow> string list" where
  "invalid_option tool use_colors arg =
     [colorize use_colors (tool @ '': invalid option -- '' @ [CHR 0x27] @ arg @ [CHR 0x27]) RED,
      ''Try '' @ [CHR 0x27] @ tool @ '' --help'' @ [CHR 0x27] @ '' for more information.'']"

record CpuInfoUtil =
  cpu_show_detailed :: bool
  cpu_show_frequencies :: bool
  cpu_show_load :: bool
  cpu_show_topology :: bool
  cpu_use_colors :: bool

text \<open>
  The constructor sets \<^verbatim>\<open>use_colors = isatty(STDOUT_FILENO)\<close>; the other flags start
  false. The same holds for the other three tools.
\<close>

definition CpuInfoUtil_init :: "bool \<Rightarrow> CpuInfoUtil" where
  "CpuInfoUtil_init isatty =
     \<lparr> cpu_show_detailed = False, cpu_show_frequencies = False, cpu_show_load = False,
       cpu_show_topology = False, cpu_use_colors = isatty \<rparr>"

fun cpuinfo_parseArgs :: "string list \<Rightarrow> CpuInfoUtil \<Rightarrow> CpuInfoUtil parsed" where
  "cpuinfo_parseArgs [] u = Continue u"
| "cpuinfo_parseArgs (arg # args) u =
     (if arg = ''--help'' \<or> arg = ''-h'' then Exit 0 []
      else if arg = ''--version'' \<or> arg = ''-V'' then Exit 0 []
      else if arg = ''--detailed'' \<or> arg = ''-d'' then
        cpuinfo_parseArgs args (u\<lparr>cpu_show_detailed := True\<rparr>)
      else if arg = ''--frequencies'' \<or> arg = ''-f'' then
        cpuinfo_parseArgs args (u\<lparr>cpu_show_frequencies := True\<rparr>)
      else if arg = ''--load'' \<or> arg = ''-l'' then
        cpuinfo_parseArgs args (u\<lparr>cpu_show_load := True\<rparr>)
      else if arg = ''--topology'' \<or> arg = ''-t'' then
        cpuinfo_parseArgs args (u\<lparr>cpu_show_topology := True\<rparr>)
      else if arg = ''--all'' \<or> arg = ''-a'' then
        cpuinfo_parseArgs args
          (u\<lparr>cpu_show_detailed := True, cpu_show_frequencies := True, cpu_show_load := True,
              cpu_show_topology := True\<rparr>)
      else if arg = ''--no-color'' then
        cpuinfo_parseArgs args (u\<lparr>cpu_use_colors := False\<rparr>)
      else Exit 1 (invalid_option ''cpuinfo'' (cpu_use_colors u) arg))"

record MemInfoUtil =
  mem_show_processes :: bool
  mem_show_detailed :: bool
  mem_show_swap :: bool
  mem_use_colors :: bool

definition MemInfoUtil_init :: "bool \<Rightarrow> MemInfoUtil" where
  "MemInfoUtil_init isatty =
     \<lparr> mem_show_processes = False, mem_show_detailed = False, mem_show_swap = False,
       mem_use_colors = isatty \<rparr>"

fun meminfo_parseArgs :: "string list \<Rightarrow> MemInfoUtil \<Rightarrow> MemInfoUtil parsed" where
  "meminfo_parseArgs [] u = Continue u"
| "meminfo_parseArgs (arg # args) u =
     (if arg = ''--help'' \<or> arg = ''-h'' then Exit 0 []
      else if arg = ''--version'' \<or> arg = ''-V'' then Exit 0 []
      else if arg = ''--processes'' \<or> arg = ''-p'' then
        meminfo_parseArgs args (u\<lparr>mem_show_processes := True\<rparr>)
      else if arg = ''--detailed'' \<or> arg = ''-d'' then
        meminfo_parseArgs args (u\<lparr>mem_show_detailed := True\<rparr>)
      else if arg = ''--swap'' \<or> arg = ''-s'' then
        meminfo_parseArgs args (u\<lparr>mem_show_swap := True\<rparr>)
      else if arg = ''--all'' \<or> arg = ''-a'' then
        meminfo_parseArgs args
          (u\<lparr>mem_show_processes := True, mem_show_detailed := True, mem_show_swap := True\<rparr>)
      else if arg = ''--no-color'' then
        meminfo_parseArgs args (u\<lparr>mem_use_colors := False\<rparr>)
      else Exit 1 (invalid_option ''meminfo'' (mem_use_colors u) arg))"

record DiskLsUtil =
  disk_show_detailed :: bool
  disk_show_usage :: bool
  disk_show_mounts :: bool
  disk_show_types :: bool
  disk_use_colors :: bool

definition DiskLsUtil_init :: "bool \<Rightarrow> DiskLsUtil" where
  "DiskLsUtil_init isatty =
     \<lparr> disk_show_detailed = False, disk_show_usage = False, disk_show_mounts = False,
       disk_show_types = False, disk_use_colors = isatty \<rparr>"

fun diskls_parseArgs :: "string list \<Rightarrow> DiskLsUtil \<Rightarrow> DiskLsUtil parsed" where
  "diskls_parseArgs [] u = Continue u"
| "diskls_parseArgs (arg # args) u =
     (if arg = ''--help'' \<or> arg = ''-h'' then Exit 0 []
      else if arg = ''--version'' \<or> arg = ''-V'' then Exit 0 []
      else if arg = ''--detailed'' \<or> arg = ''-d'' then
        diskls_parseArgs args (u\<lparr>disk_show_detailed := True\<rparr>)
      else if arg = ''--usage'' \<or> arg = ''-u'' then
        diskls_parseArgs args (u\<lparr>disk_show_usage := True\<rparr>)
      else if arg = ''--mounts'' \<or> arg = ''-m'' then
        diskls_parseArgs args (u\<lparr>disk_show_mounts := True\<rparr>)
      else if arg = ''--types'' \<or> arg = ''-t'' then
        diskls_parseArgs args (u\<lparr>disk_show_types := True\<rparr>)
      else if arg = ''--all'' \<or> arg = ''-a'' then
        diskls_parseArgs args
          (u\<lparr>disk_show_detailed := True, disk_show_usage := True, disk_show_mounts := True,
              disk_show_types := True\<rparr>)
      else if arg = ''--no-color'' then
        diskls_parseArgs args (u\<lparr>disk_use_colors := False\<rparr>)
      else Exit 1 (invalid_option ''diskls'' (disk_use_colors u) arg))"

record OsInfoUtil =
  os_show_detailed :: bool
  os_show_distro :: bool
  os_show_users :: bool
  os_show_environment :: bool
  os_use_colors :: bool

definition OsInfoUtil_init :: "bool \<Rightarrow> OsInfoUtil" where
  "OsInfoUtil_init isatty =
     \<lparr> os_show_detailed = False, os_show_distro = False, os_show_users = False,
       os_show_environment = False, os_use_colors = isatty \<rparr>"

fun osinfo_parseArgs :: "string list \<Rightarrow> OsInfoUtil \<Rightarrow> OsInfoUtil parsed" where
  "osinfo_parseArgs [] u = Continue u"
| "osinfo_parseArgs (arg # args) u =
     (if arg = ''--help'' \<or> arg = ''-h'' then Exit 0 []
      else if arg = ''--version'' \<or> arg = ''-V'' then Exit 0 []
      else if arg = ''--detailed'' \<or> arg = ''-d'' then
        osinfo_parseArgs args (u\<lparr>os_show_detailed := True\<rparr>)
      else if arg = ''--distro'' \<or> arg = ''-r'' then
        osinfo_parseArgs args (u\<lparr>os_show_distro := True\<rparr>)
      else if arg = ''--users'' \<or> arg = ''-u'' then
        osinfo_parseArgs args (u\<lparr>os_show_users := True\<rparr>)
      else if arg = ''--environment'' \<or> arg = ''-e'' then
        osinfo_parseArgs args (u\<lparr>os_show_environment := True\<rparr>)
      else if arg = ''--all'' \<or> arg = ''-a'' then
        osinfo_parseArgs args
          (u\<lparr>os_show_detailed := True, os_show_distro := True, os_show_users := True,
              os_show_environment := True\<rparr>)
      else if arg = ''--no-color'' then
        osinfo_parseArgs args (u\<lparr>os_use_colors := False\<rparr>)
      else Exit 1 (invalid_option ''osinfo'' (os_use_colors u) arg))"

text \<open>
  \<^verbatim>\<open>main\<close> of cpuinfo, as far as its exit goes: the arguments are parsed, then
  \<^verbatim>\<open>run\<close> calls \<^verbatim>\<open>printGeneralInfo\<close>, which calls \<^verbatim>\<open>getCpuInfo\<close>. An exception that
  leaves \<^verbatim>\<open>run\<close> is caught in \<^verbatim>\<open>main\<close>, which writes \<^verbatim>\<open>cpuinfo: \<close> and \<^verbatim>\<open>what()\<close> to
  standard error and returns 1. The result is the exit code and the lines on standard
  error; the report on standard output is not modelled.
\<close>

definition cpuinfo_main ::
  "(string \<Rightarrow> cpp_exception + real) \<Rightarrow> bool \<Rightarrow> string list \<Rightarrow> string \<Rightarrow> int \<times> string list" where
  "cpuinfo_main stod isatty args file =
     (case cpuinfo_parseArgs args (CpuInfoUtil_init isatty) of
        Exit code err \<Rightarrow> (code, err)
      | Continue u \<Rightarrow>
          (case getCpuInfo stod file of
             Inl e \<Rightarrow> (1, [''cpuinfo: '' @ what e])
           | Inr info \<Rightarrow> (0, [])))"


section \<open>cpuinfo: the cpu-load probe\<close>

record CpuLoad =
  load1 :: real
  load5 :: real
  load15 :: real
  cpu_usage :: real
  user :: "64 word"
  nice :: "64 word"
  system :: "64 word"
  idle :: "64 word"
  iowait :: "64 word"
  irq :: "64 word"
  softirq :: "64 word"

text \<open>
  \<^verbatim>\<open>CpuInfoUtil::getCpuLoad\<close>. The three load averages are \<^verbatim>\<open>double\<close>s read from
  \<^verbatim>\<open>/proc/loadavg\<close> and are taken as given. \<open>stat\<close> is the text of \<^verbatim>\<open>/proc/stat\<close>, or
  \<open>None\<close> when it cannot be opened. The first line is read whatever its first word is; the
  seven counters are \<^verbatim>\<open>unsigned long long\<close> and their sums wrap.
\<close>

definition getCpuLoad :: "real \<times> real \<times> real \<Rightarrow> string option \<Rightarrow> CpuLoad" where
  "getCpuLoad loadavg stat =
     (let load = \<lparr> load1 = fst loadavg, load5 = fst (snd loadavg), load15 = snd (snd loadavg),
                   cpu_usage = 0, user = 0, nice = 0, system = 0, idle = 0, iowait = 0,
                   irq = 0, softirq = 0 \<rparr>
      in case stat of
           None \<Rightarrow> load
         | Some text \<Rightarrow>
             (case getlines text of
                [] \<Rightarrow> load
              | line # _ \<Rightarrow>
                  let s0 = stream_string (Some line);
                      a = stream_unsigned s0 (user load);
                      b = stream_unsigned (snd a) (nice load);
                      c = stream_unsigned (snd b) (system load);
                      d = stream_unsigned (snd c) (idle load);
                      e = stream_unsigned (snd d) (iowait load);
                      f = stream_unsigned (snd e) (irq load);
                      g = stream_unsigned (snd f) (softirq load);
                      load' = load\<lparr>user := fst a, nice := fst b, system := fst c, idle := fst d,
                                    iowait := fst e, irq := fst f, softirq := fst g\<rparr>;
                      total = user load' + nice load' + system load' + idle load'
                              + iowait load' + irq load' + softirq load';
                      used = total - idle load' - iowait load'
                  in if 0 < total
                     then load'\<lparr>cpu_usage := real (unat used) / real (unat total) * 100\<rparr>
                     else load'))"

section \<open>meminfo: the memory-summary probe\<close>

record MemoryInfo =
  total_kb :: "64 word"
  available_kb :: "64 word"
  free_kb :: "64 word"
  buffers_kb :: "64 word"
  cached_kb :: "64 word"
  swap_total_kb :: "64 word"
  swap_free_kb :: "64 word"
  swap_cached_kb :: "64 word"
  shmem_kb :: "64 word"
  sreclaimable_kb :: "64 word"
  sunreclaim_kb :: "64 word"

definition MemoryInfo_init :: MemoryInfo where
  "MemoryInfo_init =
     \<lparr> total_kb = 0, available_kb = 0, free_kb = 0, buffers_kb = 0, cached_kb = 0,
       swap_total_kb = 0, swap_free_kb = 0, swap_cached_kb = 0, shmem_kb = 0,
       sreclaimable_kb = 0, sunreclaim_kb = 0 \<rparr>"

text \<open>
  One turn of the loop of \<^verbatim>\<open>MemInfoUtil::getMemoryInfo\<close>: \<^verbatim>\<open>if (iss >> key >> value)\<close>
  reads a word and an \<^verbatim>\<open>unsigned long\<close>; the rest of the line is never read.
\<close>

definition meminfo_line :: "string \<Rightarrow> MemoryInfo \<Rightarrow> MemoryInfo" where
  "meminfo_line line info =
     (case extract_string line of
        None \<Rightarrow> info
      | Some (key, r) \<Rightarrow>
          (case extract_unsigned r of
             Extracted val r' \<Rightarrow>
               if key = ''MemTotal:'' then info\<lparr>total_kb := val\<rparr>
               else if key = ''MemAvailable:'' then info\<lparr>available_kb := val\<rparr>
               else if key = ''MemFree:'' then info\<lparr>free_kb := val\<rparr>
               else if key = ''Buffers:'' then info\<lparr>buffers_kb := val\<rparr>
               else if key = ''Cached:'' then info\<lparr>cached_kb := val\<rparr>
               else if key = ''SwapTotal:'' then info\<lparr>swap_total_kb := val\<rparr>
               else if key = ''SwapFree:'' then info\<lparr>swap_free_kb := val\<rparr>
               else if key = ''SwapCached:'' then info\<lparr>swap_cached_kb := val\<rparr>
               else if key = ''Shmem:'' then info\<lparr>shmem_kb := val\<rparr>
               else if key = ''SReclaimable:'' then info\<lparr>sreclaimable_kb := val\<rparr>
               else if key = ''SUnreclaim:'' then info\<lparr>sunreclaim_kb := val\<rparr>
               else info
           | Failed val \<Rightarrow> info
           | NotAttempted \<Rightarrow> info))"

fun meminfo_loop :: "string list \<Rightarrow> MemoryInfo \<Rightarrow> MemoryInfo" where
  "meminfo_loop [] info = info"
| "meminfo_loop (l # ls) info = meminfo_loop ls (meminfo_line l info)"

definition getMemoryInfo :: "string \<Rightarrow> MemoryInfo" where
  "getMemoryInfo file = meminfo_loop (getlines file) MemoryInfo_init"

text \<open>
  The first two statements of \<^verbatim>\<open>MemInfoUtil::printGeneralInfo\<close>: the subtraction is
  unsigned and wraps, and the division is not guarded.
\<close>

definition used_kb :: "MemoryInfo \<Rightarrow> 64 word" where
  "used_kb info = total_kb info - available_kb info"

definition used_percentage :: "MemoryInfo \<Rightarrow> cdouble" where
  "used_percentage info =
     (if total_kb info = 0 then (if used_kb info = 0 then NaN else Infinity)
      else Finite (real (unat (used_kb info)) / real (unat (total_kb info)) * 100))"


section \<open>meminfo: the per-process probe\<close>

record ProcessInfo =
  pid :: int
  name :: string
  memory_kb :: "64 word"
  cmd :: string

text \<open>
  An entry of \<^verbatim>\<open>/proc\<close> as the probe sees it: whether it is a directory, its name, and
  the texts of its \<^verbatim>\<open>status\<close> and \<^verbatim>\<open>cmdline\<close> files (\<open>None\<close> when the file cannot be
  opened).
\<close>

record proc_entry =
  is_directory :: bool
  dirname :: string
  status_file :: "string option"
  cmdline_file :: "string option"

text \<open>
  The loop over the lines of the status file, on \<^verbatim>\<open>name\<close> and \<^verbatim>\<open>memory_kb\<close>.
  \<^verbatim>\<open>line.substr(6)\<close> throws \<^verbatim>\<open>std::out_of_range\<close> on a line shorter than 6 characters,
  which here is the line \<^verbatim>\<open>Name:\<close> alone. A \<^verbatim>\<open>VmRSS:\<close> line whose number is read ends
  the loop.
\<close>

fun status_loop :: "string list \<Rightarrow> string \<times> 64 word \<Rightarrow> cpp_exception + string \<times> 64 word" where
  "status_loop [] st = Inr st"
| "status_loop (line # ls) st =
     (if take 5 line = ''Name:'' then
        (if length line < 6
         then Inl (out_of_range
                ''basic_string::substr: __pos (which is 6) > this->size() (which is 5)'')
         else status_loop ls (drop 6 line, snd st))
      else if take 6 line = ''VmRSS:'' then
        (case stream_unsigned (stream_string (Some line)) (snd st) of
           (m, Some r) \<Rightarrow> Inr (fst st, m)
         | (m, None) \<Rightarrow> status_loop ls (fst st, m))
      else status_loop ls st)"

text \<open>
  The command line: the first line of the file, NUL bytes turned into spaces, cut to 37
  characters and three dots when longer than 40.
\<close>

definition read_cmdline :: "string option \<Rightarrow> string" where
  "read_cmdline file =
     (case file of
        None \<Rightarrow> []
      | Some text \<Rightarrow>
          let cmd = map (\<lambda>c. if c = CHR 0x00 then CHR '' '' else c) (getline text)
          in if 40 < length cmd then take 37 cmd @ ''...'' else cmd)"

text \<open>
  The body of the \<^verbatim>\<open>for\<close> loop of \<^verbatim>\<open>MemInfoUtil::getTopProcesses\<close> for one entry:
  \<open>Inr None\<close> when the entry is passed over, \<open>Inr (Some p)\<close> when \<open>p\<close> is pushed, \<open>Inl\<close>
  when the body throws (\<^verbatim>\<open>std::stoi\<close> on the name, or the status loop).
\<close>

definition examine_process :: "proc_entry \<Rightarrow> cpp_exception + ProcessInfo option" where
  "examine_process entry =
     (if \<not> is_directory entry then Inr None
      else if \<not> list_all isdigit (dirname entry) then Inr None
      else case stoi (dirname entry) of
             Inl e \<Rightarrow> Inl e
           | Inr p \<Rightarrow>
               (case status_file entry of
                  None \<Rightarrow> Inr None
                | Some status \<Rightarrow>
                    (case status_loop (getlines status) ([], 0) of
                       Inl e \<Rightarrow> Inl e
                     | Inr (nm, mem) \<Rightarrow>
                         let c = read_cmdline (cmdline_file entry)
                         in if nm \<noteq> [] \<and> 0 < mem
                            then Inr (Some \<lparr> pid = p, name = nm, memory_kb = mem, cmd = c \<rparr>)
                            else Inr None)))"

text \<open>
  The loop inside its \<^verbatim>\<open>try\<close> block: the \<^verbatim>\<open>catch\<close> is outside the loop, so the first
  exception ends the loop with the vector as it stands.
\<close>

fun process_loop ::
  "proc_entry list \<Rightarrow> ProcessInfo list \<Rightarrow> ProcessInfo list \<times> cpp_exception option" where
  "process_loop [] processes = (processes, None)"
| "process_loop (entry # entries) processes =
     (case examine_process entry of
        Inl e \<Rightarrow> (processes, Some e)
      | Inr None \<Rightarrow> process_loop entries processes
      | Inr (Some p) \<Rightarrow> process_loop entries (processes @ [p]))"

text \<open>
  \<^verbatim>\<open>std::sort\<close> with the comparison \<^verbatim>\<open>a.memory_kb > b.memory_kb\<close>. The standard fixes
  that the result is a permutation of the input in which no element comes after one of
  smaller \<^verbatim>\<open>memory_kb\<close>, and leaves the order of elements of equal \<^verbatim>\<open>memory_kb\<close> open.
  The sort is therefore a parameter of the probe, bound by that contract.
\<close>

definition by_memory_descending :: "ProcessInfo list \<Rightarrow> bool" where
  "by_memory_descending ps = sorted_wrt (\<lambda>a b. memory_kb b \<le> memory_kb a) ps"

definition std_sort_contract :: "(ProcessInfo list \<Rightarrow> ProcessInfo list) \<Rightarrow> bool" where
  "std_sort_contract srt \<longleftrightarrow> (\<forall>ps. by_memory_descending (srt ps) \<and> mset (srt ps) = mset ps)"

text \<open>
  One sort that meets the contract, the insertion sort the library runs on short
  vectors: the elements are taken in order of arrival and each is moved left past those
  of smaller \<^verbatim>\<open>memory_kb\<close> only, so equal elements stay in their order of arrival.
\<close>

fun insert_by_memory :: "ProcessInfo \<Rightarrow> ProcessInfo list \<Rightarrow> ProcessInfo list" where
  "insert_by_memory p [] = [p]"
| "insert_by_memory p (q # qs) =
     (if memory_kb q < memory_kb p then p # q # qs else q # insert_by_memory p qs)"

definition sort_by_memory :: "ProcessInfo list \<Rightarrow> ProcessInfo list" where
  "sort_by_memory ps = foldl (\<lambda>sorted p. insert_by_memory p sorted) [] ps"

text \<open>
  \<^verbatim>\<open>MemInfoUtil::getTopProcesses\<close>: the records returned and the lines written to
  standard error. \<^verbatim>\<open>limit\<close> is an \<^verbatim>\<open>int\<close> compared with a \<^verbatim>\<open>size_t\<close>.
\<close>

definition getTopProcesses ::
  "(ProcessInfo list \<Rightarrow> ProcessInfo list) \<Rightarrow> bool \<Rightarrow> int \<Rightarrow> proc_entry list
     \<Rightarrow> ProcessInfo list \<times> string list" where
  "getTopProcesses std_sort use_colors limit entries =
     (case process_loop entries [] of
        (processes, thrown) \<Rightarrow>
          (take (nat (limit mod 2 ^ 64)) (std_sort processes),
           (case thrown of
              None \<Rightarrow> []
            | Some e \<Rightarrow>
                [colorize use_colors ''Warning: Could not read all process information''
                   YELLOW])))"

section \<open>diskls: the block-device inventory\<close>













section \<open>diskls: the mount-usage probe\<close>

text \<open>The fields of \<^verbatim>\<open>struct statvfs\<close> the probe reads, 64 bits each.\<close>

record statvfs =
  f_frsize :: "64 word"
  f_blocks :: "64 word"
  f_bfree :: "64 word"
  f_bavail :: "64 word"

record PartitionInfo =
  part_device :: string
  mountpoint :: string
  filesystem :: string
  total_bytes :: "64 word"
  used_bytes :: "64 word"
  available_bytes :: "64 word"
  usage_percent :: real
  mount_options :: string

text \<open>\<^verbatim>\<open>iss >> device >> mountpoint >> filesystem >> options\<close>: the first four words.\<close>

definition mount_fields :: "string \<Rightarrow> (string \<times> string \<times> string \<times> string) option" where
  "mount_fields line =
     (case extract_string line of
        None \<Rightarrow> None
      | Some (dev, r1) \<Rightarrow>
          (case extract_string r1 of
             None \<Rightarrow> None
           | Some (mp, r2) \<Rightarrow>
               (case extract_string r2 of
                  None \<Rightarrow> None
                | Some (fs, r3) \<Rightarrow>
                    (case extract_string r3 of
                       None \<Rightarrow> None
                     | Some (opts, r4) \<Rightarrow> Some (dev, mp, fs, opts)))))"

text \<open>
  The space usage of a kept row; \<open>None\<close> is a \<^verbatim>\<open>statvfs\<close> call that fails. The products
  and the difference are unsigned and wrap.
\<close>

definition space_usage :: "PartitionInfo \<Rightarrow> statvfs option \<Rightarrow> PartitionInfo" where
  "space_usage part st =
     (case st of
        None \<Rightarrow> part
      | Some stat \<Rightarrow>
          let part1 = part\<lparr>total_bytes := f_blocks stat * f_frsize stat,
                          available_bytes := f_bavail stat * f_frsize stat,
                          used_bytes := (f_blocks stat - f_bfree stat) * f_frsize stat\<rparr>
          in if 0 < total_bytes part1
             then part1\<lparr>usage_percent :=
                    real (unat (used_bytes part1)) / real (unat (total_bytes part1)) * 100\<rparr>
             else part1)"

text \<open>
  One turn of the loop of \<^verbatim>\<open>DiskLsUtil::getPartitionInfo\<close>: the record pushed for the
  line, if any. \<open>statvfs_call\<close> is the system call on the mount point.
\<close>

definition mounts_line :: "(string \<Rightarrow> statvfs option) \<Rightarrow> string \<Rightarrow> PartitionInfo option" where
  "mounts_line statvfs_call line =
     (case mount_fields line of
        None \<Rightarrow> None
      | Some (dev, mp, fs, opts) \<Rightarrow>
          if find_str ''/dev/'' dev \<noteq> Some 0 then None
          else if fs = ''proc'' \<or> fs = ''sysfs'' \<or> fs = ''devtmpfs'' \<or> fs = ''tmpfs'' then None
          else Some (space_usage
                 \<lparr> part_device = dev, mountpoint = mp, filesystem = fs, total_bytes = 0,
                   used_bytes = 0, available_bytes = 0, usage_percent = 0,
                   mount_options = opts \<rparr>
                 (statvfs_call mp)))"

fun mounts_loop ::
  "(string \<Rightarrow> statvfs option) \<Rightarrow> string list \<Rightarrow> PartitionInfo list \<Rightarrow> PartitionInfo list" where
  "mounts_loop statvfs_call [] parts = parts"
| "mounts_loop statvfs_call (line # ls) parts =
     (case mounts_line statvfs_call line of
        None \<Rightarrow> mounts_loop statvfs_call ls parts
      | Some part \<Rightarrow> mounts_loop statvfs_call ls (parts @ [part]))"

definition getPartitionInfo :: "(string \<Rightarrow> statvfs option) \<Rightarrow> string \<Rightarrow> PartitionInfo list" where
  "getPartitionInfo statvfs_call file = mounts_loop statvfs_call (getlines file) []"

section \<open>osinfo: the distro-identity probe\<close>

record DistroInfo =
  distro_name :: string
  distro_version :: string
  distro_id :: string
  id_like :: string
  version_codename :: string
  version_id :: string
  pretty_name :: string
  home_url :: string
  support_url :: string
  bug_report_url :: string

definition DistroInfo_init :: DistroInfo where
  "DistroInfo_init =
     \<lparr> distro_name = [], distro_version = [], distro_id = [], id_like = [],
       version_codename = [], version_id = [], pretty_name = [], home_url = [],
       support_url = [], bug_report_url = [] \<rparr>"

text \<open>
  \<^verbatim>\<open>front()\<close> and \<^verbatim>\<open>back()\<close> of a \<^verbatim>\<open>std::string\<close> have no defined result on the empty
  string: the access is an \<open>option\<close>, and a probe that makes it there ends in
  \<open>empty_string_access\<close>.
\<close>

datatype undefined_behaviour = empty_string_access

definition string_front :: "string \<Rightarrow> char option" where
  "string_front s = (case s of [] \<Rightarrow> None | c # cs \<Rightarrow> Some c)"

definition string_back :: "string \<Rightarrow> char option" where
  "string_back s = (if s = [] then None else Some (last s))"

text \<open>
  The quote-stripping step of \<^verbatim>\<open>OsInfoUtil::getDistroInfo\<close>:
  \<^verbatim>\<open>if (value.front() == '"' && value.back() == '"') value = value.substr(1, value.length() - 2)\<close>.
\<close>

definition remove_quotes :: "string \<Rightarrow> undefined_behaviour + string" where
  "remove_quotes val =
     (case string_front val of
        None \<Rightarrow> Inl empty_string_access
      | Some f \<Rightarrow>
          if f = CHR 0x22 then
            (case string_back val of
               None \<Rightarrow> Inl empty_string_access
             | Some b \<Rightarrow>
                 if b = CHR 0x22 then Inr (substr val 1 (int (length val) - 2)) else Inr val)
          else Inr val)"

definition distro_line :: "string \<Rightarrow> DistroInfo \<Rightarrow> undefined_behaviour + DistroInfo" where
  "distro_line line info =
     (case find_char CHR ''='' line of
        None \<Rightarrow> Inr info
      | Some equals \<Rightarrow>
          let key = take equals line
          in (case remove_quotes (drop (equals + 1) line) of
                Inl ub \<Rightarrow> Inl ub
              | Inr val \<Rightarrow>
                  Inr (if key = ''NAME'' then info\<lparr>distro_name := val\<rparr>
                       else if key = ''VERSION'' then info\<lparr>distro_version := val\<rparr>
                       else if key = ''ID'' then info\<lparr>distro_id := val\<rparr>
                       else if key = ''ID_LIKE'' then info\<lparr>id_like := val\<rparr>
                       else if key = ''VERSION_CODENAME'' then info\<lparr>version_codename := val\<rparr>
                       else if key = ''VERSION_ID'' then info\<lparr>version_id := val\<rparr>
                       else if key = ''PRETTY_NAME'' then info\<lparr>pretty_name := val\<rparr>
                       else if key = ''HOME_URL'' then info\<lparr>home_url := val\<rparr>
                       else if key = ''SUPPORT_URL'' then info\<lparr>support_url := val\<rparr>
                       else if key = ''BUG_REPORT_URL'' then info\<lparr>bug_report_url := val\<rparr>
                       else info)))"

fun distro_loop :: "string list \<Rightarrow> DistroInfo \<Rightarrow> undefined_behaviour + DistroInfo" where
  "distro_loop [] info = Inr info"
| "distro_loop (l # ls) info =
     (case distro_line l info of
        Inl ub \<Rightarrow> Inl ub
      | Inr info' \<Rightarrow> distro_loop ls info')"

definition getDistroInfo :: "string \<Rightarrow> undefined_behaviour + DistroInfo" where
  "getDistroInfo file = distro_loop (getlines file) DistroInfo_init"

section \<open>Vocabulary of the properties\<close>

text \<open>A file given by its lines, each ended by a newline.\<close>

definition text_of_lines :: "string list \<Rightarrow> string" where
  "text_of_lines ls = concat (map (\<lambda>l. l @ [CHR 0x0A]) ls)"

text \<open>
  The key/value pairs of \<^verbatim>\<open>/proc/cpuinfo\<close>, in file order, as the probe cuts them, and
  the values a key has.
\<close>

definition key_values :: "string \<Rightarrow> (string \<times> string) list" where
  "key_values file = List.map_filter cpuinfo_key_value (getlines file)"

definition values_of :: "string \<Rightarrow> (string \<times> string) list \<Rightarrow> string list" where
  "values_of k kvs = map snd (filter (\<lambda>kv. fst kv = k) kvs)"

text \<open>
  The four tools, the options each one knows, and a run of \<^verbatim>\<open>parseArgs\<close> from the
  freshly constructed object: \<open>None\<close> when it returns, the exit code and the lines on
  standard error when it exits.
\<close>

datatype tool = cpuinfo | meminfo | diskls | osinfo

fun tool_name :: "tool \<Rightarrow> string" where
  "tool_name cpuinfo = ''cpuinfo''"
| "tool_name meminfo = ''meminfo''"
| "tool_name diskls = ''diskls''"
| "tool_name osinfo = ''osinfo''"

definition common_options :: "string list" where
  "common_options = [''--help'', ''-h'', ''--version'', ''-V'', ''--detailed'', ''-d'',
                     ''--all'', ''-a'', ''--no-color'']"

fun tool_options :: "tool \<Rightarrow> string list" where
  "tool_options cpuinfo =
     common_options @ [''--frequencies'', ''-f'', ''--load'', ''-l'', ''--topology'', ''-t'']"
| "tool_options meminfo = common_options @ [''--processes'', ''-p'', ''--swap'', ''-s'']"
| "tool_options diskls =
     common_options @ [''--usage'', ''-u'', ''--mounts'', ''-m'', ''--types'', ''-t'']"
| "tool_options osinfo =
     common_options @ [''--distro'', ''-r'', ''--users'', ''-u'', ''--environment'', ''-e'']"

definition exit_of :: "'u parsed \<Rightarrow> (int \<times> string list) option" where
  "exit_of r = (case r of Exit code err \<Rightarrow> Some (code, err) | Continue u \<Rightarrow> None)"

fun run_parseArgs :: "tool \<Rightarrow> bool \<Rightarrow> string list \<Rightarrow> (int \<times> string list) option" where
  "run_parseArgs cpuinfo isatty args = exit_of (cpuinfo_parseArgs args (CpuInfoUtil_init isatty))"
| "run_parseArgs meminfo isatty args = exit_of (meminfo_parseArgs args (MemInfoUtil_init isatty))"
| "run_parseArgs diskls isatty args = exit_of (diskls_parseArgs args (DiskLsUtil_init isatty))"
| "run_parseArgs osinfo isatty args = exit_of (osinfo_parseArgs args (OsInfoUtil_init isatty))"

text \<open>A percentage in range.\<close>

definition percentage :: "real \<Rightarrow> bool" where
  "percentage p \<longleftrightarrow> 0 \<le> p \<and> p \<le> 100"

text \<open>The four fields of an emitted mount record, and a \<^verbatim>\<open>statvfs\<close> call that fails.\<close>

definition row_fields :: "PartitionInfo \<Rightarrow> string \<times> string \<times> string \<times> string" where
  "row_fields p = (part_device p, mountpoint p, filesystem p, mount_options p)"

definition no_statvfs :: "string \<Rightarrow> statvfs option" where
  "no_statvfs mp = None"


text \<open>
  An entry of \<^verbatim>\<open>/proc\<close> raises when the loop body throws on it. The qualifying records
  of a list of entries are those the body pushes, in order. \<open>process_warning\<close> is the
  line the handler writes.
\<close>

definition raises :: "proc_entry \<Rightarrow> bool" where
  "raises entry = isl (examine_process entry)"

definition qualifying :: "proc_entry list \<Rightarrow> ProcessInfo list" where
  "qualifying entries =
     List.map_filter (\<lambda>e. case examine_process e of Inl ex \<Rightarrow> None | Inr r \<Rightarrow> r) entries"

definition process_warning :: "bool \<Rightarrow> string" where
  "process_warning use_colors =
     colorize use_colors ''Warning: Could not read all process information'' YELLOW"

text \<open>
  Sample inputs: a process directory whose status file has a \<^verbatim>\<open>Name:\<close> and a
  \<^verbatim>\<open>VmRSS:\<close> line, as the kernel writes them, with a tab after the colon; a block device
  with the texts of its \<^verbatim>\<open>size\<close> and \<^verbatim>\<open>queue/rotational\<close> files, if any; uninitialised locals that happen to
  hold zero; and the three columns of a device that the inventory scenario names.
\<close>

definition proc_fixture :: "string \<Rightarrow> string \<Rightarrow> string \<Rightarrow> proc_entry" where
  "proc_fixture pid_name nm rss =
     \<lparr> is_directory = True, dirname = pid_name,
       status_file = Some (text_of_lines [''Name:'' @ [CHR 0x09] @ nm,
                                          ''VmRSS:'' @ [CHR 0x09] @ rss @ '' kB'']),
       cmdline_file = None \<rparr>"




text \<open>
  The text of a line, written independently of the readers above: a field is a non-empty
  word without white space, a blank is a run of white space, and \<open>decimal n\<close> is the
  number \<open>n\<close> in decimal digits.
\<close>

definition field :: "string \<Rightarrow> bool" where
  "field w \<longleftrightarrow> w \<noteq> [] \<and> list_all (\<lambda>c. \<not> isspace c) w"

definition blank :: "string \<Rightarrow> bool" where
  "blank s \<longleftrightarrow> list_all isspace s"

definition ends_field :: "string \<Rightarrow> bool" where
  "ends_field rest \<longleftrightarrow> (case rest of [] \<Rightarrow> True | c # cs \<Rightarrow> isspace c)"

definition ends_number :: "string \<Rightarrow> bool" where
  "ends_number rest \<longleftrightarrow> (case rest of [] \<Rightarrow> True | c # cs \<Rightarrow> \<not> isdigit c)"

definition digit_char :: "nat \<Rightarrow> char" where
  "digit_char d = char_of (48 + d)"

fun decimal :: "nat \<Rightarrow> string" where
  "decimal n = (if n < 10 then [digit_char n] else decimal (n div 10) @ [digit_char (n mod 10)])"

declare decimal.simps [simp del]

text \<open>The eleven keys of the memory-summary file the probe knows, each with its slot.\<close>

definition recognised_slots :: "(string \<times> (MemoryInfo \<Rightarrow> 64 word)) list" where
  "recognised_slots =
     [(''MemTotal:'', total_kb), (''MemAvailable:'', available_kb), (''MemFree:'', free_kb),
      (''Buffers:'', buffers_kb), (''Cached:'', cached_kb), (''SwapTotal:'', swap_total_kb),
      (''SwapFree:'', swap_free_kb), (''SwapCached:'', swap_cached_kb), (''Shmem:'', shmem_kb),
      (''SReclaimable:'', sreclaimable_kb), (''SUnreclaim:'', sunreclaim_kb)]"

section \<open>Evaluation and library facts\<close>

lemmas stream_eval = extract_string_def extract_unsigned_def extract_int_def isspace_def
  isdigit_def digits_value_def digit_value_def stream_string_def stream_unsigned_def

lemma find_str_prefix: "find_str p s = Some 0 \<longleftrightarrow> prefix p s"
  by (cases s) auto

lemma ratio_percentage: "a \<le> b \<Longrightarrow> percentage (real a / real b * 100)"
proof -
  assume ab: "a \<le> b"
  define x where "x = real a / real b"
  have "0 \<le> x" by (simp add: x_def)
  moreover have "x \<le> 1"
  proof (cases "b = 0")
    case True
    then show ?thesis by (simp add: x_def)
  next
    case False
    with ab show ?thesis by (simp add: x_def)
  qed
  ultimately have "0 \<le> x * 100 \<and> x * 100 \<le> 100" by simp
  then show ?thesis by (simp add: percentage_def x_def)
qed

section \<open>Reading fields and decimal numbers from a line\<close>

lemma isdigit_not_isspace: "isdigit c \<Longrightarrow> \<not> isspace c"
  by (auto simp: isdigit_def isspace_def)

lemma isdigit_not_sign: "isdigit c \<Longrightarrow> c \<noteq> CHR ''-'' \<and> c \<noteq> CHR ''+''"
  by (auto simp: isdigit_def)

lemma takeWhile_stop: "ys = [] \<or> \<not> P (hd ys) \<Longrightarrow> takeWhile P ys = []"
  by (cases ys) auto

lemma dropWhile_stop: "ys = [] \<or> \<not> P (hd ys) \<Longrightarrow> dropWhile P ys = ys"
  by (cases ys) auto

lemma ends_field_alt: "ends_field r \<longleftrightarrow> r = [] \<or> isspace (hd r)"
  by (cases r) (simp_all add: ends_field_def)

lemma ends_number_alt: "ends_number r \<longleftrightarrow> r = [] \<or> \<not> isdigit (hd r)"
  by (cases r) (simp_all add: ends_number_def)

lemma blank_ends_field: "blank s \<Longrightarrow> ends_field (s @ r) \<longleftrightarrow> s \<noteq> [] \<or> ends_field r"
  by (cases s) (simp_all add: blank_def ends_field_def)

lemma extract_string_field:
  assumes "blank lead" and "field w" and "ends_field rest"
  shows "extract_string (lead @ w @ rest) = Some (w, rest)"
proof -
  from assms(2) have ne: "w \<noteq> []" and ns: "\<forall>c \<in> set w. \<not> isspace c"
    by (simp_all add: field_def list_all_iff)
  from assms(1) have sp: "\<forall>c \<in> set lead. isspace c"
    by (simp add: blank_def list_all_iff)
  from assms(3) have e: "rest = [] \<or> \<not> \<not> isspace (hd rest)"
    by (simp add: ends_field_alt)
  from ne ns have "\<not> isspace (hd (w @ rest))"
    by (cases w) auto
  then have "dropWhile isspace (w @ rest) = w @ rest"
    by (intro dropWhile_stop) simp
  with sp have d: "dropWhile isspace (lead @ w @ rest) = w @ rest"
    by (simp add: dropWhile_append2)
  have t: "takeWhile (\<lambda>c. \<not> isspace c) (w @ rest) = w"
    using ns e by (simp add: takeWhile_append2 takeWhile_stop)
  have r: "dropWhile (\<lambda>c. \<not> isspace c) (w @ rest) = rest"
    using ns e by (simp add: dropWhile_append2 dropWhile_stop)
  from ne show ?thesis
    by (simp add: extract_string_def d t r)
qed

lemma digit_chars:
  "digit_char 0 = CHR ''0''" "digit_char 1 = CHR ''1''" "digit_char 2 = CHR ''2''"
  "digit_char 3 = CHR ''3''" "digit_char 4 = CHR ''4''" "digit_char 5 = CHR ''5''"
  "digit_char 6 = CHR ''6''" "digit_char 7 = CHR ''7''" "digit_char 8 = CHR ''8''"
  "digit_char 9 = CHR ''9''" "digit_char (Suc 0) = CHR ''1''"
  by code_simp+

lemmas decimal_eval = decimal.simps digit_chars

lemma isdigit_digit_char: "d < 10 \<Longrightarrow> isdigit (digit_char d)"
  by (simp add: isdigit_def digit_char_def)

lemma digit_value_digit_char: "d < 10 \<Longrightarrow> digit_value (digit_char d) = d"
  by (simp add: digit_value_def digit_char_def)

lemma decimal_digits: "decimal n \<noteq> [] \<and> (\<forall>c \<in> set (decimal n). isdigit c)"
proof (induction n rule: decimal.induct)
  case (1 n)
  show ?case
  proof (cases "n < 10")
    case True
    then show ?thesis by (subst (1 2) decimal.simps) (simp add: isdigit_digit_char)
  next
    case False
    with 1 have "\<forall>c \<in> set (decimal (n div 10)). isdigit c" by simp
    moreover have "isdigit (digit_char (n mod 10))"
      by (simp add: isdigit_digit_char)
    ultimately show ?thesis
      using False by (subst (1 2) decimal.simps) auto
  qed
qed

lemma digits_value_snoc: "digits_value (ds @ [c]) = 10 * digits_value ds + digit_value c"
  by (simp add: digits_value_def)

lemma digits_value_decimal: "digits_value (decimal n) = n"
proof (induction n rule: decimal.induct)
  case (1 n)
  show ?case
  proof (cases "n < 10")
    case True
    then show ?thesis
      by (subst decimal.simps) (simp add: digits_value_def digit_value_digit_char)
  next
    case False
    with 1 have "digits_value (decimal (n div 10)) = n div 10" by simp
    then have "digits_value (decimal (n div 10) @ [digit_char (n mod 10)]) = n"
      by (simp add: digits_value_snoc digit_value_digit_char)
    with False show ?thesis
      by (subst decimal.simps) simp
  qed
qed

lemma number_prefix:
  assumes "blank lead" and "ends_number rest"
  shows "dropWhile isspace (lead @ decimal n @ rest) = decimal n @ rest"
    and "takeWhile isdigit (decimal n @ rest) = decimal n"
    and "dropWhile isdigit (decimal n @ rest) = rest"
    and "hd (decimal n @ rest) \<noteq> CHR ''-''" and "hd (decimal n @ rest) \<noteq> CHR ''+''"
    and "decimal n @ rest \<noteq> []"
proof -
  note dd = decimal_digits [of n]
  from dd have hd: "isdigit (hd (decimal n @ rest))"
    by (cases "decimal n") auto
  then have "\<not> isspace (hd (decimal n @ rest))"
    by (rule isdigit_not_isspace)
  then have "dropWhile isspace (decimal n @ rest) = decimal n @ rest"
    by (intro dropWhile_stop) simp
  moreover from assms(1) have "\<forall>c \<in> set lead. isspace c"
    by (simp add: blank_def list_all_iff)
  ultimately show "dropWhile isspace (lead @ decimal n @ rest) = decimal n @ rest"
    by (simp add: dropWhile_append2)
  from assms(2) have e: "rest = [] \<or> \<not> isdigit (hd rest)"
    by (simp add: ends_number_alt)
  show "takeWhile isdigit (decimal n @ rest) = decimal n"
    using dd e by (simp add: takeWhile_append2 takeWhile_stop)
  show "dropWhile isdigit (decimal n @ rest) = rest"
    using dd e by (simp add: dropWhile_append2 dropWhile_stop)
  from hd show "hd (decimal n @ rest) \<noteq> CHR ''-''" "hd (decimal n @ rest) \<noteq> CHR ''+''"
    using isdigit_not_sign by blast+
  from dd show "decimal n @ rest \<noteq> []" by simp
qed

lemma extract_unsigned_decimal:
  assumes "blank lead" and "ends_number rest"
  shows "(extract_unsigned (lead @ decimal n @ rest) :: 'a::len word extraction) =
           (if 2 ^ LENGTH('a) \<le> n then Failed (- 1) else Extracted (of_nat n) rest)"
proof -
  from decimal_digits [of n] have ne: "decimal n \<noteq> []" by simp
  show ?thesis
    by (simp only: extract_unsigned_def Let_def number_prefix [OF assms] digits_value_decimal
        ne if_False simp_thms)
qed


section \<open>The cpu-identity probe: counts, siblings, conversion failures\<close>

lemma map_increment_keys: "fst ` set (map_increment m k) = insert k (fst ` set m)"
  by (induction m k rule: map_increment.induct) auto

lemma map_increment_distinct:
  "distinct (map fst m) \<Longrightarrow> distinct (map fst (map_increment m k))"
  by (induction m k rule: map_increment.induct) (auto simp: map_increment_keys)

lemma fold_map_increment:
  "distinct (map fst m) \<Longrightarrow>
     distinct (map fst (fold (\<lambda>v m. map_increment m v) vs m)) \<and>
     fst ` set (fold (\<lambda>v m. map_increment m v) vs m) = set vs \<union> fst ` set m"
  by (induction vs arbitrary: m) (auto simp: map_increment_keys map_increment_distinct)

lemma values_of_append: "values_of k (xs @ ys) = values_of k xs @ values_of k ys"
  by (simp add: values_of_def)

lemma map_filter_Cons_single:
  "List.map_filter f (x # xs) = List.map_filter f [x] @ List.map_filter f xs"
  by (simp add: List.map_filter_def)

text \<open>What one line does to the two counters, when it does not throw.\<close>

lemma cpuinfo_line_counts:
  assumes "cpuinfo_line stod l (info, cc) = Inr (info', cc')"
  shows "logical_cores info' =
           logical_cores info
           + int (length (values_of ''processor'' (List.map_filter cpuinfo_key_value [l])))"
    and "cc' = fold (\<lambda>v m. map_increment m v)
                 (values_of ''core id'' (List.map_filter cpuinfo_key_value [l])) cc"
  using assms
  by (auto simp: cpuinfo_line_def values_of_def List.map_filter_def Let_def
           split: option.splits if_splits sum.splits)

lemma cpuinfo_loop_counts:
  "cpuinfo_loop stod ls (info, cc) = Inr (info', cc') \<Longrightarrow>
     logical_cores info' =
       logical_cores info
       + int (length (values_of ''processor'' (List.map_filter cpuinfo_key_value ls))) \<and>
     cc' = fold (\<lambda>v m. map_increment m v)
             (values_of ''core id'' (List.map_filter cpuinfo_key_value ls)) cc"
proof (induction ls arbitrary: info cc)
  case Nil
  then show ?case by (simp add: values_of_def List.map_filter_def)
next
  case (Cons l ls)
  from Cons.prems obtain info1 cc1 where
    step: "cpuinfo_line stod l (info, cc) = Inr (info1, cc1)" and
    rest: "cpuinfo_loop stod ls (info1, cc1) = Inr (info', cc')"
    by (auto split: sum.splits)
  note s = cpuinfo_line_counts [OF step]
  note r = Cons.IH [OF rest]
  have split: "List.map_filter cpuinfo_key_value (l # ls) =
      List.map_filter cpuinfo_key_value [l] @ List.map_filter cpuinfo_key_value ls"
    by (rule map_filter_Cons_single)
  show ?case
    unfolding split values_of_append using s r by simp
qed

text \<open>The probe returns a record on every file without a \<^verbatim>\<open>siblings\<close> or \<^verbatim>\<open>cpu MHz\<close> key.\<close>

lemma cpuinfo_line_returns:
  assumes "\<forall>kv \<in> set (List.map_filter cpuinfo_key_value [l]).
             fst kv \<noteq> ''siblings'' \<and> fst kv \<noteq> ''cpu MHz''"
  shows "\<exists>st'. cpuinfo_line stod l st = Inr st'"
  using assms
  by (cases "cpuinfo_key_value l")
     (auto simp: cpuinfo_line_def List.map_filter_simps Let_def)

lemma cpuinfo_loop_returns:
  "\<forall>kv \<in> set (List.map_filter cpuinfo_key_value ls).
      fst kv \<noteq> ''siblings'' \<and> fst kv \<noteq> ''cpu MHz''
   \<Longrightarrow> \<exists>st'. cpuinfo_loop stod ls st = Inr st'"
proof (induction ls arbitrary: st)
  case Nil
  show ?case by simp
next
  case (Cons l ls)
  have split: "List.map_filter cpuinfo_key_value (l # ls) =
      List.map_filter cpuinfo_key_value [l] @ List.map_filter cpuinfo_key_value ls"
    by (rule map_filter_Cons_single)
  from Cons.prems obtain st1 where s: "cpuinfo_line stod l st = Inr st1"
    unfolding split using cpuinfo_line_returns [of l stod st] by auto
  from Cons.prems have "\<forall>kv \<in> set (List.map_filter cpuinfo_key_value ls).
      fst kv \<noteq> ''siblings'' \<and> fst kv \<noteq> ''cpu MHz''"
    unfolding split by simp
  from Cons.IH [OF this, of st1] s show ?case
    by simp
qed

lemma getCpuInfo_returns:
  assumes "\<forall>kv \<in> set (key_values file). fst kv \<noteq> ''siblings'' \<and> fst kv \<noteq> ''cpu MHz''"
  shows "\<exists>info. getCpuInfo stod file = Inr info"
proof -
  from assms obtain st where
    "cpuinfo_loop stod (getlines file) (CpuInfo_init, []) = Inr st"
    unfolding key_values_def using cpuinfo_loop_returns by blast
  then show ?thesis
    by (cases st) (simp add: getCpuInfo_def Let_def)
qed

text \<open>
  Whenever the cpu-identity probe returns a record, its logical-cpu count is the number of
  \<^verbatim>\<open>processor\<close> keys of the file, and its physical-core count is the number of distinct
  values of the \<^verbatim>\<open>core id\<close> keys, or the logical count when the file has no \<^verbatim>\<open>core id\<close>
  key. The values are compared as the probe reads them: the text after the colon,
  without its leading blanks and tabs.
\<close>

lemma getCpuInfo_core_counts:
  assumes "getCpuInfo stod file = Inr info"
  shows "logical_cores info = int (length (values_of ''processor'' (key_values file))) \<and>
         physical_cores info =
           (if values_of ''core id'' (key_values file) = [] then logical_cores info
            else int (card (set (values_of ''core id'' (key_values file)))))"
proof -
  from assms obtain info0 cc where
    loop: "cpuinfo_loop stod (getlines file) (CpuInfo_init, []) = Inr (info0, cc)" and
    info: "info = (if int (length cc) = 0
                   then info0\<lparr>physical_cores := logical_cores info0\<rparr>
                   else info0\<lparr>physical_cores := int (length cc)\<rparr>)"
    by (auto simp: getCpuInfo_def Let_def split: sum.splits prod.splits if_splits)
  let ?ids = "values_of ''core id'' (key_values file)"
  from cpuinfo_loop_counts [OF loop]
  have lc: "logical_cores info0 = int (length (values_of ''processor'' (key_values file)))"
    and cc: "cc = fold (\<lambda>v m. map_increment m v) ?ids []"
    by (simp_all add: key_values_def CpuInfo_init_def)
  from fold_map_increment [of "[]" ?ids] cc
  have d: "distinct (map fst cc)" and k: "fst ` set cc = set ?ids"
    by simp_all
  have "length cc = card (set ?ids)"
    using d k by (metis distinct_card length_map list.set_map)
  moreover have "?ids = [] \<longleftrightarrow> length cc = 0"
    using k by (metis image_is_empty length_0_conv set_empty)
  ultimately show ?thesis
    using lc info by auto
qed

text \<open>
  The scenario of the specification: two \<^verbatim>\<open>processor\<close> lines and two \<^verbatim>\<open>core id\<close> lines,
  both with value \<^verbatim>\<open>0\<close>, give two logical cpus and one physical core.
\<close>

lemma getCpuInfo_core_counts_scenario:
  "\<exists>info. getCpuInfo (\<lambda>s. Inl (invalid_argument ''stod''))
            (text_of_lines [''processor : 0'', ''core id : 0'',
                            ''processor : 1'', ''core id : 0'']) = Inr info
          \<and> logical_cores info = 2 \<and> physical_cores info = 1"
proof -
  let ?stod = "\<lambda>s::string. (Inl (invalid_argument ''stod'') :: cpp_exception + real)"
  let ?file = "text_of_lines [''processor : 0'', ''core id : 0'',
                              ''processor : 1'', ''core id : 0'']"
  have "case getCpuInfo ?stod ?file of Inl e \<Rightarrow> False | Inr info \<Rightarrow> True"
    by code_simp
  then obtain info where run: "getCpuInfo ?stod ?file = Inr info"
    by (auto split: sum.splits)
  have p: "int (length (values_of ''processor'' (key_values ?file))) = 2"
    by code_simp
  have c: "values_of ''core id'' (key_values ?file) \<noteq> []"
    "int (card (set (values_of ''core id'' (key_values ?file)))) = 1"
    by code_simp+
  from getCpuInfo_core_counts [OF run] p c
  have "logical_cores info = 2 \<and> physical_cores info = 1"
    by simp
  with run show ?thesis by blast
qed

text \<open>
  C7. The claim is that for every file the record holds these two counts. On a file that
  also has a \<^verbatim>\<open>siblings\<close> line without a digit, the two \<^verbatim>\<open>processor\<close> lines and the two
  \<^verbatim>\<open>core id\<close> lines are counted, and then \<^verbatim>\<open>std::stoi\<close> throws as in C1: no record is
  returned, where the same file without that line gives 2 and 1.
\<close>

theorem getCpuInfo_counts_lost_on_siblings:
  "getCpuInfo stod
     (text_of_lines [''processor : 0'', ''core id : 0'', ''processor : 1'', ''core id : 0'',
                     ''siblings : abc''])
     = Inl (invalid_argument ''stoi'')
   \<and> map_sum id (\<lambda>info. (logical_cores info, physical_cores info))
       (getCpuInfo stod
          (text_of_lines [''processor : 0'', ''core id : 0'', ''processor : 1'',
                          ''core id : 0'']))
     = Inr (2, 1)"
  by code_simp

text \<open>
  C1. The claim is that a value which cannot be converted leaves its field at the default
  and that the probe never raises. On the code, a \<^verbatim>\<open>siblings\<close> value without a digit
  makes \<^verbatim>\<open>std::stoi\<close> throw \<^verbatim>\<open>std::invalid_argument\<close>; \<^verbatim>\<open>getCpuInfo\<close> has no handler, so
  the exception leaves the probe, no record is produced (the model name read before is
  lost with it), and \<^verbatim>\<open>main\<close> ends the program with exit code 1.
\<close>

theorem getCpuInfo_raises_on_siblings:
  "getCpuInfo stod (text_of_lines [''model name : X'', ''siblings : abc''])
     = Inl (invalid_argument ''stoi'')
   \<and> cpuinfo_main stod isatty [] (text_of_lines [''model name : X'', ''siblings : abc''])
     = (1, [''cpuinfo: stoi''])"
  by code_simp

text \<open>
  C5. The claim is that \<^verbatim>\<open>siblings\<close> comes from the first \<^verbatim>\<open>siblings\<close> key. The branch
  for \<^verbatim>\<open>siblings\<close> has no guard, unlike the branches of the other single-valued fields,
  so every \<^verbatim>\<open>siblings\<close> line overwrites the field: with the values 4 and then 8 the record
  holds 8.
\<close>

theorem getCpuInfo_siblings_last_wins:
  "map_sum id siblings (getCpuInfo stod (text_of_lines [''siblings : 4'', ''siblings : 8'']))
     = Inr 8"
  by code_simp

section \<open>Unknown command-line options\<close>

text \<open>
  An argument list whose leading part is parsed without an exit, followed by an argument
  the tool does not know: the run ends there with the two lines of \<open>invalid_option\<close>,
  coloured if standard output is a terminal and \<^verbatim>\<open>--no-color\<close> has not been seen.
\<close>

lemma cpuinfo_unknown:
  "exit_of (cpuinfo_parseArgs pre u) = None \<Longrightarrow> arg \<notin> set (tool_options cpuinfo) \<Longrightarrow>
   exit_of (cpuinfo_parseArgs (pre @ arg # post) u) =
     Some (1, invalid_option ''cpuinfo'' (cpu_use_colors u \<and> ''--no-color'' \<notin> set pre) arg)"
proof (induction pre arbitrary: u)
  case Nil
  then show ?case by (simp add: exit_of_def common_options_def)
next
  case (Cons a pre)
  show ?case
  proof (cases "a \<in> set (tool_options cpuinfo)")
    case False
    then have "cpuinfo_parseArgs (a # pre) u =
        Exit 1 (invalid_option ''cpuinfo'' (cpu_use_colors u) a)"
      by (simp add: common_options_def)
    with Cons.prems(1) show ?thesis by (simp add: exit_of_def)
  next
    case True
    then have "a = ''--help'' \<or> a = ''-h'' \<or> a = ''--version'' \<or> a = ''-V'' \<or>
       a = ''--detailed'' \<or> a = ''-d'' \<or> a = ''--all'' \<or> a = ''-a'' \<or>
       a = ''--no-color'' \<or> a = ''--frequencies'' \<or> a = ''-f'' \<or>
       a = ''--load'' \<or> a = ''-l'' \<or> a = ''--topology'' \<or> a = ''-t''"
      by (simp add: common_options_def)
    then show ?thesis
      using Cons.prems(1) Cons.IH [OF _ Cons.prems(2)]
      by (elim disjE) (simp_all add: exit_of_def)
  qed
qed

lemma meminfo_unknown:
  "exit_of (meminfo_parseArgs pre u) = None \<Longrightarrow> arg \<notin> set (tool_options meminfo) \<Longrightarrow>
   exit_of (meminfo_parseArgs (pre @ arg # post) u) =
     Some (1, invalid_option ''meminfo'' (mem_use_colors u \<and> ''--no-color'' \<notin> set pre) arg)"
proof (induction pre arbitrary: u)
  case Nil
  then show ?case by (simp add: exit_of_def common_options_def)
next
  case (Cons a pre)
  show ?case
  proof (cases "a \<in> set (tool_options meminfo)")
    case False
    then have "meminfo_parseArgs (a # pre) u =
        Exit 1 (invalid_option ''meminfo'' (mem_use_colors u) a)"
      by (simp add: common_options_def)
    with Cons.prems(1) show ?thesis by (simp add: exit_of_def)
  next
    case True
    then have "a = ''--help'' \<or> a = ''-h'' \<or> a = ''--version'' \<or> a = ''-V'' \<or>
       a = ''--detailed'' \<or> a = ''-d'' \<or> a = ''--all'' \<or> a = ''-a'' \<or>
       a = ''--no-color'' \<or> a = ''--processes'' \<or> a = ''-p'' \<or>
       a = ''--swap'' \<or> a = ''-s''"
      by (simp add: common_options_def)
    then show ?thesis
      using Cons.prems(1) Cons.IH [OF _ Cons.prems(2)]
      by (elim disjE) (simp_all add: exit_of_def)
  qed
qed

lemma diskls_unknown:
  "exit_of (diskls_parseArgs pre u) = None \<Longrightarrow> arg \<notin> set (tool_options diskls) \<Longrightarrow>
   exit_of (diskls_parseArgs (pre @ arg # post) u) =
     Some (1, invalid_option ''diskls'' (disk_use_colors u \<and> ''--no-color'' \<notin> set pre) arg)"
proof (induction pre arbitrary: u)
  case Nil
  then show ?case by (simp add: exit_of_def common_options_def)
next
  case (Cons a pre)
  show ?case
  proof (cases "a \<in> set (tool_options diskls)")
    case False
    then have "diskls_parseArgs (a # pre) u =
        Exit 1 (invalid_option ''diskls'' (disk_use_colors u) a)"
      by (simp add: common_options_def)
    with Cons.prems(1) show ?thesis by (simp add: exit_of_def)
  next
    case True
    then have "a = ''--help'' \<or> a = ''-h'' \<or> a = ''--version'' \<or> a = ''-V'' \<or>
       a = ''--detailed'' \<or> a = ''-d'' \<or> a = ''--all'' \<or> a = ''-a'' \<or>
       a = ''--no-color'' \<or> a = ''--usage'' \<or> a = ''-u'' \<or> a = ''--mounts'' \<or>
       a = ''-m'' \<or> a = ''--types'' \<or> a = ''-t''"
      by (simp add: common_options_def)
    then show ?thesis
      using Cons.prems(1) Cons.IH [OF _ Cons.prems(2)]
      by (elim disjE) (simp_all add: exit_of_def)
  qed
qed

lemma osinfo_unknown:
  "exit_of (osinfo_parseArgs pre u) = None \<Longrightarrow> arg \<notin> set (tool_options osinfo) \<Longrightarrow>
   exit_of (osinfo_parseArgs (pre @ arg # post) u) =
     Some (1, invalid_option ''osinfo'' (os_use_colors u \<and> ''--no-color'' \<notin> set pre) arg)"
proof (induction pre arbitrary: u)
  case Nil
  then show ?case by (simp add: exit_of_def common_options_def)
next
  case (Cons a pre)
  show ?case
  proof (cases "a \<in> set (tool_options osinfo)")
    case False
    then have "osinfo_parseArgs (a # pre) u =
        Exit 1 (invalid_option ''osinfo'' (os_use_colors u) a)"
      by (simp add: common_options_def)
    with Cons.prems(1) show ?thesis by (simp add: exit_of_def)
  next
    case True
    then have "a = ''--help'' \<or> a = ''-h'' \<or> a = ''--version'' \<or> a = ''-V'' \<or>
       a = ''--detailed'' \<or> a = ''-d'' \<or> a = ''--all'' \<or> a = ''-a'' \<or>
       a = ''--no-color'' \<or> a = ''--distro'' \<or> a = ''-r'' \<or> a = ''--users'' \<or>
       a = ''-u'' \<or> a = ''--environment'' \<or> a = ''-e''"
      by (simp add: common_options_def)
    then show ?thesis
      using Cons.prems(1) Cons.IH [OF _ Cons.prems(2)]
      by (elim disjE) (simp_all add: exit_of_def)
  qed
qed


lemma invalid_option_mentions:
  "sublist ''invalid option'' (hd (invalid_option tool c arg))"
proof -
  define q where "q = '' -- '' @ [CHR 0x27] @ arg @ [CHR 0x27]"
  show ?thesis
  proof (cases c)
    case False
    then have "hd (invalid_option tool c arg) = (tool @ '': '') @ ''invalid option'' @ q"
      by (simp add: invalid_option_def colorize_def q_def)
    then show ?thesis
      unfolding sublist_def by blast
  next
    case True
    then have "hd (invalid_option tool c arg) =
        (RED @ tool @ '': '') @ ''invalid option'' @ (q @ RESET)"
      by (simp add: invalid_option_def colorize_def q_def)
    then show ?thesis
      unfolding sublist_def by blast
  qed
qed

text \<open>
  C6, as the code has it. For each of the four tools: when the arguments before it did
  not end the run (none of them is \<^verbatim>\<open>--help\<close>, \<^verbatim>\<open>--version\<close> or their short forms, and
  none is unknown), an argument that is not one of the tool's options makes the tool exit
  with code 1 after writing two lines to standard error: the first names the tool and
  the argument and contains \<^verbatim>\<open>invalid option\<close>, the second is the hint to try
  \<^verbatim>\<open>--help\<close>. The arguments after it are not looked at.
\<close>

theorem parseArgs_unknown_option:
  assumes "run_parseArgs t isatty pre = None" and "arg \<notin> set (tool_options t)"
  shows "run_parseArgs t isatty (pre @ arg # post) =
           Some (1, invalid_option (tool_name t) (isatty \<and> ''--no-color'' \<notin> set pre) arg) \<and>
         length (invalid_option (tool_name t) (isatty \<and> ''--no-color'' \<notin> set pre) arg) = 2 \<and>
         sublist ''invalid option''
           (hd (invalid_option (tool_name t) (isatty \<and> ''--no-color'' \<notin> set pre) arg))"
proof -
  have "run_parseArgs t isatty (pre @ arg # post) =
           Some (1, invalid_option (tool_name t) (isatty \<and> ''--no-color'' \<notin> set pre) arg)"
  proof (cases t)
    case cpuinfo
    with assms cpuinfo_unknown [of pre "CpuInfoUtil_init isatty" arg post]
    show ?thesis by (simp add: CpuInfoUtil_init_def)
  next
    case meminfo
    with assms meminfo_unknown [of pre "MemInfoUtil_init isatty" arg post]
    show ?thesis by (simp add: MemInfoUtil_init_def)
  next
    case diskls
    with assms diskls_unknown [of pre "DiskLsUtil_init isatty" arg post]
    show ?thesis by (simp add: DiskLsUtil_init_def)
  next
    case osinfo
    with assms osinfo_unknown [of pre "OsInfoUtil_init isatty" arg post]
    show ?thesis by (simp add: OsInfoUtil_init_def)
  qed
  moreover
  have "length (invalid_option (tool_name t) (isatty \<and> ''--no-color'' \<notin> set pre) arg) = 2"
    by (simp add: invalid_option_def)
  ultimately show ?thesis
    using invalid_option_mentions by blast
qed

theorem parseArgs_unknown_option_witness:
  "run_parseArgs diskls True ([''-u'', ''--no-color''] @ ''--bogus'' # [''--help'']) =
     Some (1, [''diskls: invalid option -- '' @ [CHR 0x27] @ ''--bogus'' @ [CHR 0x27],
               ''Try '' @ [CHR 0x27] @ ''diskls --help'' @ [CHR 0x27]
                 @ '' for more information.''])"
proof -
  have pre: "run_parseArgs diskls True [''-u'', ''--no-color''] = None"
    by code_simp
  have unknown: "''--bogus'' \<notin> set (tool_options diskls)"
    by code_simp
  from parseArgs_unknown_option [OF pre unknown, of "[''--help'']"]
  show ?thesis
    by (simp add: invalid_option_def colorize_def)
qed

text \<open>
  C6 as the specification words it fails twice: an unknown option alone gives two lines
  on standard error, not one; and after \<^verbatim>\<open>--help\<close> the tool has already exited with
  code 0 when the unknown option would be read.
\<close>

theorem parseArgs_one_line_counterexample:
  "map_option (\<lambda>r. length (snd r)) (run_parseArgs cpuinfo False [''--bogus'']) = Some 2
   \<and> run_parseArgs cpuinfo False [''--help'', ''--bogus''] = Some (0, [])"
  by code_simp

section \<open>Percentages\<close>

lemma used_percentage_range:
  assumes "0 < total_kb info" and "available_kb info \<le> total_kb info"
  shows "\<exists>p. used_percentage info = Finite p \<and> percentage p"
proof -
  have "unat (used_kb info) = unat (total_kb info) - unat (available_kb info)"
    using assms(2) by (simp add: used_kb_def unat_sub)
  then have "unat (used_kb info) \<le> unat (total_kb info)" by simp
  then have "percentage (real (unat (used_kb info)) / real (unat (total_kb info)) * 100)"
    by (rule ratio_percentage)
  moreover from assms(1) have "total_kb info \<noteq> 0" by auto
  ultimately show ?thesis by (simp add: used_percentage_def)
qed

lemma cpu_usage_eq:
  "cpu_usage (getCpuLoad la stat) =
     (let l = getCpuLoad la stat;
          total = user l + nice l + system l + idle l + iowait l + irq l + softirq l
      in if 0 < total then real (unat (total - idle l - iowait l)) / real (unat total) * 100 else 0)"
  by (simp add: getCpuLoad_def Let_def split: option.splits list.splits)

lemma cpu_usage_range:
  fixes l :: CpuLoad
  assumes l: "l = getCpuLoad la stat"
    and nowrap: "unat (user l) + unat (nice l) + unat (system l) + unat (idle l)
                 + unat (iowait l) + unat (irq l) + unat (softirq l) < 2 ^ 64"
  shows "percentage (cpu_usage l)"
proof -
  define total where "total = user l + nice l + system l + idle l + iowait l + irq l + softirq l"
  have t: "unat total = unat (user l) + unat (nice l) + unat (system l) + unat (idle l)
                 + unat (iowait l) + unat (irq l) + unat (softirq l)"
    unfolding total_def using nowrap
    by (simp add: unat_word_ariths)
  have i: "idle l \<le> total"
    using t by (simp add: word_le_nat_alt)
  then have ti: "unat (total - idle l) = unat total - unat (idle l)"
    by (rule unat_sub)
  have "iowait l \<le> total - idle l"
    using t ti by (simp add: word_le_nat_alt)
  then have "unat (total - idle l - iowait l) = unat (total - idle l) - unat (iowait l)"
    by (rule unat_sub)
  with ti have u: "unat (total - idle l - iowait l) \<le> unat total"
    by simp
  have "percentage (real (unat (total - idle l - iowait l)) / real (unat total) * 100)"
    using u by (rule ratio_percentage)
  moreover have "percentage 0"
    by (simp add: percentage_def)
  ultimately show ?thesis
    unfolding l cpu_usage_eq
    by (simp add: Let_def l [symmetric] total_def [symmetric])
qed

lemma space_usage_range:
  assumes "\<And>stat. st = Some stat \<Longrightarrow>
             f_bfree stat \<le> f_blocks stat \<and> unat (f_blocks stat) * unat (f_frsize stat) < 2 ^ 64"
    and "usage_percent part = 0"
  shows "percentage (usage_percent (space_usage part st))"
proof (cases st)
  case None
  with assms(2) show ?thesis by (simp add: space_usage_def percentage_def)
next
  case (Some stat)
  with assms(1) have le: "f_bfree stat \<le> f_blocks stat"
    and nw: "unat (f_blocks stat) * unat (f_frsize stat) < 2 ^ 64"
    by simp_all
  have total: "unat (f_blocks stat * f_frsize stat) = unat (f_blocks stat) * unat (f_frsize stat)"
    using nw by (simp add: unat_word_ariths)
  have diff: "unat (f_blocks stat - f_bfree stat) = unat (f_blocks stat) - unat (f_bfree stat)"
    using le by (rule unat_sub)
  have small: "(unat (f_blocks stat) - unat (f_bfree stat)) * unat (f_frsize stat)
          \<le> unat (f_blocks stat) * unat (f_frsize stat)"
    by (simp add: mult_le_mono1)
  from small nw
  have "(unat (f_blocks stat) - unat (f_bfree stat)) * unat (f_frsize stat) < 2 ^ 64"
    by (rule le_less_trans)
  then have "unat ((f_blocks stat - f_bfree stat) * f_frsize stat) =
      (unat (f_blocks stat) - unat (f_bfree stat)) * unat (f_frsize stat)"
    by (simp add: unat_word_ariths diff)
  with total have "unat ((f_blocks stat - f_bfree stat) * f_frsize stat)
      \<le> unat (f_blocks stat * f_frsize stat)"
    by (simp add: mult_le_mono1)
  then have "percentage (real (unat ((f_blocks stat - f_bfree stat) * f_frsize stat))
               / real (unat (f_blocks stat * f_frsize stat)) * 100)"
    by (rule ratio_percentage)
  with Some assms(2) show ?thesis
    by (simp add: space_usage_def Let_def percentage_def)
qed

lemma mounts_line_range:
  assumes "\<And>mp stat. statvfs_call mp = Some stat \<Longrightarrow>
             f_bfree stat \<le> f_blocks stat \<and> unat (f_blocks stat) * unat (f_frsize stat) < 2 ^ 64"
    and "mounts_line statvfs_call line = Some p"
  shows "percentage (usage_percent p)"
proof -
  from assms(2) obtain part mp where p: "p = space_usage part (statvfs_call mp)"
    and z: "usage_percent part = 0"
    by (auto simp: mounts_line_def split: option.splits if_splits)
  show ?thesis
    unfolding p using assms(1) z by (rule space_usage_range)
qed

lemma mounts_loop_set:
  "set (mounts_loop c ls acc) = set acc \<union> {p. \<exists>l \<in> set ls. mounts_line c l = Some p}"
  by (induction ls arbitrary: acc) (auto split: option.splits)

lemma getPartitionInfo_set:
  "set (getPartitionInfo c file) = {p. \<exists>l \<in> set (getlines file). mounts_line c l = Some p}"
  by (simp add: getPartitionInfo_def mounts_loop_set)

text \<open>
  C2, as the code has it. Each percentage lies in \<open>[0, 100]\<close> when its total is positive
  or guarded and no unsigned operation wraps: the memory used-percentage when
  \<^verbatim>\<open>MemTotal\<close> is positive and \<^verbatim>\<open>MemAvailable\<close> does not exceed it; the cpu-usage percent
  when the seven counters add up to less than \<open>2^64\<close> (it is 0 when they add up to 0); the
  mount usage-percent when the free blocks do not exceed the blocks and blocks times
  fragment size is less than \<open>2^64\<close> (it is 0 when the total is 0 or \<^verbatim>\<open>statvfs\<close> fails).
  Nothing is said of a \<^verbatim>\<open>MemTotal\<close> of zero.
\<close>

theorem percentages_in_range:
  "(0 < total_kb (getMemoryInfo meminfo_file)
      \<and> available_kb (getMemoryInfo meminfo_file) \<le> total_kb (getMemoryInfo meminfo_file)
    \<longrightarrow> (\<exists>p. used_percentage (getMemoryInfo meminfo_file) = Finite p \<and> percentage p))
   \<and> (unat (user (getCpuLoad loadavg stat)) + unat (nice (getCpuLoad loadavg stat))
        + unat (system (getCpuLoad loadavg stat)) + unat (idle (getCpuLoad loadavg stat))
        + unat (iowait (getCpuLoad loadavg stat)) + unat (irq (getCpuLoad loadavg stat))
        + unat (softirq (getCpuLoad loadavg stat)) < 2 ^ 64
    \<longrightarrow> percentage (cpu_usage (getCpuLoad loadavg stat)))
   \<and> ((\<forall>mp st. statvfs_call mp = Some st \<longrightarrow>
          f_bfree st \<le> f_blocks st \<and> unat (f_blocks st) * unat (f_frsize st) < 2 ^ 64)
    \<longrightarrow> (\<forall>p \<in> set (getPartitionInfo statvfs_call mounts_file). percentage (usage_percent p)))"
proof (intro conjI impI ballI)
  assume "0 < total_kb (getMemoryInfo meminfo_file)
      \<and> available_kb (getMemoryInfo meminfo_file) \<le> total_kb (getMemoryInfo meminfo_file)"
  then show "\<exists>p. used_percentage (getMemoryInfo meminfo_file) = Finite p \<and> percentage p"
    by (simp add: used_percentage_range)
next
  assume "unat (user (getCpuLoad loadavg stat)) + unat (nice (getCpuLoad loadavg stat))
        + unat (system (getCpuLoad loadavg stat)) + unat (idle (getCpuLoad loadavg stat))
        + unat (iowait (getCpuLoad loadavg stat)) + unat (irq (getCpuLoad loadavg stat))
        + unat (softirq (getCpuLoad loadavg stat)) < 2 ^ 64"
  with refl show "percentage (cpu_usage (getCpuLoad loadavg stat))"
    by (rule cpu_usage_range)
next
  fix p
  assume ok: "\<forall>mp st. statvfs_call mp = Some st \<longrightarrow>
          f_bfree st \<le> f_blocks st \<and> unat (f_blocks st) * unat (f_frsize st) < 2 ^ 64"
    and "p \<in> set (getPartitionInfo statvfs_call mounts_file)"
  then obtain l where "mounts_line statvfs_call l = Some p"
    by (auto simp: getPartitionInfo_set)
  with ok show "percentage (usage_percent p)"
    by (intro mounts_line_range [of statvfs_call l p]) auto
qed

theorem percentages_in_range_witness:
  "used_percentage (getMemoryInfo (text_of_lines [''MemTotal: 8000 kB'', ''MemAvailable: 2000 kB'']))
     = Finite 75
   \<and> percentage 75
   \<and> cpu_usage (getCpuLoad (0, 0, 0) (Some ''cpu 1 0 1 7 1 0 0'')) = 20
   \<and> percentage (cpu_usage (getCpuLoad (0, 0, 0) (Some ''cpu 1 0 1 7 1 0 0'')))
   \<and> map usage_percent
        (getPartitionInfo
           (\<lambda>mp. Some \<lparr> f_frsize = 4096, f_blocks = 1000, f_bfree = 250, f_bavail = 200 \<rparr>)
           (text_of_lines [''/dev/sda1 / ext4 rw 0 0''])) = [75]
   \<and> percentage (usage_percent (hd (getPartitionInfo
           (\<lambda>mp. Some \<lparr> f_frsize = 4096, f_blocks = 1000, f_bfree = 250, f_bavail = 200 \<rparr>)
           (text_of_lines [''/dev/sda1 / ext4 rw 0 0'']))))"
proof -
  let ?mem = "text_of_lines [''MemTotal: 8000 kB'', ''MemAvailable: 2000 kB'']"
  let ?stat = "Some ''cpu 1 0 1 7 1 0 0''"
  let ?call = "\<lambda>mp::string. Some \<lparr> f_frsize = 4096, f_blocks = 1000, f_bfree = 250, f_bavail = 200 \<rparr>"
  let ?mounts = "text_of_lines [''/dev/sda1 / ext4 rw 0 0'']"
  note range = percentages_in_range [of ?mem "(0, 0, 0)" ?stat ?call ?mounts]
  have lines: "getlines ?mem = [''MemTotal: 8000 kB'', ''MemAvailable: 2000 kB'']"
    by code_simp
  have l1: "\<And>i. meminfo_line ''MemTotal: 8000 kB'' i = i\<lparr>total_kb := 8000\<rparr>"
    by (simp add: meminfo_line_def stream_eval)
  have l2: "\<And>i. meminfo_line ''MemAvailable: 2000 kB'' i = i\<lparr>available_kb := 2000\<rparr>"
    by (simp add: meminfo_line_def stream_eval)
  have mem: "getMemoryInfo ?mem = MemoryInfo_init\<lparr>total_kb := 8000, available_kb := 2000\<rparr>"
    by (simp add: getMemoryInfo_def lines l1 l2)
  have pct: "used_percentage (getMemoryInfo ?mem) = Finite 75"
    by (simp add: mem used_percentage_def used_kb_def MemoryInfo_init_def)
  have "0 < total_kb (getMemoryInfo ?mem)
        \<and> available_kb (getMemoryInfo ?mem) \<le> total_kb (getMemoryInfo ?mem)"
    by (simp add: mem MemoryInfo_init_def)
  with range pct have c1: "percentage 75"
    by auto
  have s0: "stream_string (Some ''cpu 1 0 1 7 1 0 0'') = Some '' 1 0 1 7 1 0 0''"
    by (simp add: stream_eval)
  have s1: "stream_unsigned (Some '' 1 0 1 7 1 0 0'') (0 :: 64 word) = (1, Some '' 0 1 7 1 0 0'')"
    by (simp add: stream_eval)
  have s2: "stream_unsigned (Some '' 0 1 7 1 0 0'') (0 :: 64 word) = (0, Some '' 1 7 1 0 0'')"
    by (simp add: stream_eval)
  have s3: "stream_unsigned (Some '' 1 7 1 0 0'') (0 :: 64 word) = (1, Some '' 7 1 0 0'')"
    by (simp add: stream_eval)
  have s4: "stream_unsigned (Some '' 7 1 0 0'') (0 :: 64 word) = (7, Some '' 1 0 0'')"
    by (simp add: stream_eval)
  have s5: "stream_unsigned (Some '' 1 0 0'') (0 :: 64 word) = (1, Some '' 0 0'')"
    by (simp add: stream_eval)
  have s6: "stream_unsigned (Some '' 0 0'') (0 :: 64 word) = (0, Some '' 0'')"
    by (simp add: stream_eval)
  have s7: "stream_unsigned (Some '' 0'') (0 :: 64 word) = (0, Some [])"
    by (simp add: stream_eval)
  have load: "getCpuLoad (0, 0, 0) ?stat =
      \<lparr> load1 = 0, load5 = 0, load15 = 0, cpu_usage = 20, user = 1, nice = 0, system = 1,
        idle = 7, iowait = 1, irq = 0, softirq = 0 \<rparr>"
    by (simp add: getCpuLoad_def s0 s1 s2 s3 s4 s5 s6 s7)
  have "unat (user (getCpuLoad (0, 0, 0) ?stat)) + unat (nice (getCpuLoad (0, 0, 0) ?stat))
        + unat (system (getCpuLoad (0, 0, 0) ?stat)) + unat (idle (getCpuLoad (0, 0, 0) ?stat))
        + unat (iowait (getCpuLoad (0, 0, 0) ?stat)) + unat (irq (getCpuLoad (0, 0, 0) ?stat))
        + unat (softirq (getCpuLoad (0, 0, 0) ?stat)) < 2 ^ 64"
    by (simp add: load)
  with range have c2: "percentage (cpu_usage (getCpuLoad (0, 0, 0) ?stat))"
    by blast
  have ml: "getlines ?mounts = [''/dev/sda1 / ext4 rw 0 0'']"
    by code_simp
  have mf: "mount_fields ''/dev/sda1 / ext4 rw 0 0'' = Some (''/dev/sda1'', ''/'', ''ext4'', ''rw'')"
    by code_simp
  have parts: "map usage_percent (getPartitionInfo ?call ?mounts) = [75]"
    by (simp add: getPartitionInfo_def ml mounts_line_def mf space_usage_def Let_def)
  have "\<forall>mp st. ?call mp = Some st \<longrightarrow>
          f_bfree st \<le> f_blocks st \<and> unat (f_blocks st) * unat (f_frsize st) < 2 ^ 64"
    by auto
  with range have c3: "\<forall>p \<in> set (getPartitionInfo ?call ?mounts). percentage (usage_percent p)"
    by blast
  from parts have "hd (getPartitionInfo ?call ?mounts) \<in> set (getPartitionInfo ?call ?mounts)"
    by (cases "getPartitionInfo ?call ?mounts") simp_all
  with c3 have c4: "percentage (usage_percent (hd (getPartitionInfo ?call ?mounts)))"
    by blast
  from pct c1 load c2 parts c4 show ?thesis
    by simp
qed

text \<open>
  C2 as the specification words it fails when \<^verbatim>\<open>MemAvailable\<close> exceeds \<^verbatim>\<open>MemTotal\<close>:
  the unsigned difference wraps, and with 1000 kB total and 2000 kB available the
  percentage is far above 100.
\<close>

theorem used_percentage_counterexample:
  "used_percentage (getMemoryInfo (text_of_lines [''MemTotal: 1000 kB'', ''MemAvailable: 2000 kB'']))
     = Finite (18446744073709550616 / 10)
   \<and> \<not> percentage (18446744073709550616 / 10)"
proof -
  have lines: "getlines (text_of_lines [''MemTotal: 1000 kB'', ''MemAvailable: 2000 kB''])
      = [''MemTotal: 1000 kB'', ''MemAvailable: 2000 kB'']"
    by code_simp
  have l1: "\<And>i. meminfo_line ''MemTotal: 1000 kB'' i = i\<lparr>total_kb := 1000\<rparr>"
    by (simp add: meminfo_line_def stream_eval)
  have l2: "\<And>i. meminfo_line ''MemAvailable: 2000 kB'' i = i\<lparr>available_kb := 2000\<rparr>"
    by (simp add: meminfo_line_def stream_eval)
  show ?thesis
    by (simp add: getMemoryInfo_def lines l1 l2 used_percentage_def used_kb_def
        MemoryInfo_init_def percentage_def)
qed

text \<open>
  With \<^verbatim>\<open>MemTotal\<close> zero the division is by zero: unlike the swap, cpu and mount
  percentages, the memory percentage has no test on its total.
\<close>

lemma used_percentage_zero_total:
  "used_percentage (getMemoryInfo (text_of_lines [''MemTotal: 0 kB'', ''MemAvailable: 2000 kB'']))
     = Infinity"
proof -
  have lines: "getlines (text_of_lines [''MemTotal: 0 kB'', ''MemAvailable: 2000 kB''])
      = [''MemTotal: 0 kB'', ''MemAvailable: 2000 kB'']"
    by code_simp
  have l1: "\<And>i. meminfo_line ''MemTotal: 0 kB'' i = i\<lparr>total_kb := 0\<rparr>"
    by (simp add: meminfo_line_def stream_eval)
  have l2: "\<And>i. meminfo_line ''MemAvailable: 2000 kB'' i = i\<lparr>available_kb := 2000\<rparr>"
    by (simp add: meminfo_line_def stream_eval)
  show ?thesis
    by (simp add: getMemoryInfo_def lines l1 l2 used_percentage_def used_kb_def
        MemoryInfo_init_def)
qed

section \<open>The memory-summary probe and the unit\<close>

lemma recognised_key_field: "(key, slot) \<in> set recognised_slots \<Longrightarrow> field key"
  by (auto simp: recognised_slots_def field_def isspace_def)

lemma meminfo_line_number:
  assumes "field key" and "blank sep" and "sep \<noteq> []" and "ends_number rest" and "n < 2 ^ 64"
  shows "meminfo_line (key @ sep @ decimal n @ rest) info =
           (if key = ''MemTotal:'' then info\<lparr>total_kb := of_nat n\<rparr>
            else if key = ''MemAvailable:'' then info\<lparr>available_kb := of_nat n\<rparr>
            else if key = ''MemFree:'' then info\<lparr>free_kb := of_nat n\<rparr>
            else if key = ''Buffers:'' then info\<lparr>buffers_kb := of_nat n\<rparr>
            else if key = ''Cached:'' then info\<lparr>cached_kb := of_nat n\<rparr>
            else if key = ''SwapTotal:'' then info\<lparr>swap_total_kb := of_nat n\<rparr>
            else if key = ''SwapFree:'' then info\<lparr>swap_free_kb := of_nat n\<rparr>
            else if key = ''SwapCached:'' then info\<lparr>swap_cached_kb := of_nat n\<rparr>
            else if key = ''Shmem:'' then info\<lparr>shmem_kb := of_nat n\<rparr>
            else if key = ''SReclaimable:'' then info\<lparr>sreclaimable_kb := of_nat n\<rparr>
            else if key = ''SUnreclaim:'' then info\<lparr>sunreclaim_kb := of_nat n\<rparr>
            else info)"
proof -
  have "ends_field (sep @ decimal n @ rest)"
    using assms(2,3) by (simp add: blank_ends_field)
  with assms(1) have k: "extract_string (key @ sep @ decimal n @ rest)
      = Some (key, sep @ decimal n @ rest)"
    using extract_string_field [of "[]" key "sep @ decimal n @ rest"]
    by (simp add: blank_def)
  have e: "(extract_unsigned (sep @ decimal n @ rest) :: 64 word extraction)
      = Extracted (of_nat n) rest"
    using assms(5) by (simp add: extract_unsigned_decimal [OF assms(2,4)])
  show ?thesis
    by (simp only: meminfo_line_def k e option.case prod.case extraction.case)
qed

text \<open>
  C4, as the code has it. The memory-summary probe reads the first word of a line as the
  key and the unsigned number after it as the value; what follows the digits is never
  read. For each of the eleven recognised keys, a line made of the key, white space, a
  number below \<open>2^64\<close> in decimal and any rest that does not start with a digit (the unit
  \<^verbatim>\<open>kB\<close>, another unit, or nothing) puts the number into the slot of that key and leaves
  the other ten slots as they were; the result is the same as for that line with the
  unit \<^verbatim>\<open>kB\<close>.
\<close>

theorem meminfo_line_ignores_unit:
  assumes "(key, slot) \<in> set recognised_slots"
    and "blank sep" and "sep \<noteq> []" and "n < 2 ^ 64" and "ends_number rest"
  shows "slot (meminfo_line (key @ sep @ decimal n @ rest) info) = of_nat n
       \<and> (\<forall>(k, other) \<in> set recognised_slots.
            k \<noteq> key \<longrightarrow> other (meminfo_line (key @ sep @ decimal n @ rest) info) = other info)
       \<and> meminfo_line (key @ sep @ decimal n @ rest) info
            = meminfo_line (key @ sep @ decimal n @ '' kB'') info"
proof -
  note k = recognised_key_field [OF assms(1)]
  have kb: "ends_number '' kB''"
    by (simp add: ends_number_def isdigit_def)
  note line = meminfo_line_number [OF k assms(2,3,5,4), of info]
  note line_kb = meminfo_line_number [OF k assms(2,3) kb assms(4), of info]
  from assms(1) have "(key, slot) = (''MemTotal:'', total_kb)
      \<or> (key, slot) = (''MemAvailable:'', available_kb)
      \<or> (key, slot) = (''MemFree:'', free_kb)
      \<or> (key, slot) = (''Buffers:'', buffers_kb)
      \<or> (key, slot) = (''Cached:'', cached_kb)
      \<or> (key, slot) = (''SwapTotal:'', swap_total_kb)
      \<or> (key, slot) = (''SwapFree:'', swap_free_kb)
      \<or> (key, slot) = (''SwapCached:'', swap_cached_kb)
      \<or> (key, slot) = (''Shmem:'', shmem_kb)
      \<or> (key, slot) = (''SReclaimable:'', sreclaimable_kb)
      \<or> (key, slot) = (''SUnreclaim:'', sunreclaim_kb)"
    by (simp add: recognised_slots_def)
  then have "slot (meminfo_line (key @ sep @ decimal n @ rest) info) = of_nat n
       \<and> (\<forall>(k, other) \<in> set recognised_slots.
            k \<noteq> key \<longrightarrow> other (meminfo_line (key @ sep @ decimal n @ rest) info) = other info)"
    unfolding line by (elim disjE) (simp_all add: recognised_slots_def)
  moreover have "meminfo_line (key @ sep @ decimal n @ rest) info
            = meminfo_line (key @ sep @ decimal n @ '' kB'') info"
    by (simp only: line line_kb)
  ultimately show ?thesis by blast
qed

text \<open>A \<^verbatim>\<open>MemFree\<close> line in megabytes fills \<^verbatim>\<open>free_kb\<close> and nothing else.\<close>

theorem meminfo_line_ignores_unit_witness:
  "free_kb (meminfo_line ''MemFree: 8000 MB'' MemoryInfo_init) = 8000
   \<and> buffers_kb (meminfo_line ''MemFree: 8000 MB'' MemoryInfo_init) = 0
   \<and> meminfo_line ''MemFree: 8000 MB'' MemoryInfo_init
       = meminfo_line ''MemFree: 8000 kB'' MemoryInfo_init"
proof -
  have d: "decimal 8000 = ''8000''"
    by (simp add: decimal_eval)
  have h: "(''MemFree:'', free_kb) \<in> set recognised_slots" "blank '' ''" "'' '' \<noteq> []"
    "(8000::nat) < 2 ^ 64" "ends_number '' MB''"
    by (simp_all add: recognised_slots_def blank_def isspace_def ends_number_def isdigit_def)
  note claim = meminfo_line_ignores_unit [OF h, of MemoryInfo_init, unfolded d, simplified]
  have b: "(''Buffers:'', buffers_kb) \<in> set recognised_slots"
    by (simp add: recognised_slots_def)
  from claim have "free_kb (meminfo_line ''MemFree: 8000 MB'' MemoryInfo_init) = 8000"
    by blast
  moreover from claim b
  have "buffers_kb (meminfo_line ''MemFree: 8000 MB'' MemoryInfo_init) = buffers_kb MemoryInfo_init"
    by fastforce
  then have "buffers_kb (meminfo_line ''MemFree: 8000 MB'' MemoryInfo_init) = 0"
    by (simp add: MemoryInfo_init_def)
  moreover from claim have "meminfo_line ''MemFree: 8000 MB'' MemoryInfo_init
       = meminfo_line ''MemFree: 8000 kB'' MemoryInfo_init"
    by blast
  ultimately show ?thesis by blast
qed

text \<open>
  C4 as the specification words it fails: a \<^verbatim>\<open>MemTotal\<close> line with the unit \<^verbatim>\<open>MB\<close>, or
  with no unit, fills the slot, which is 0 before.
\<close>

theorem getMemoryInfo_unit_counterexample:
  "total_kb (getMemoryInfo (text_of_lines [''MemTotal: 8000 MB''])) = 8000
   \<and> total_kb (getMemoryInfo (text_of_lines [''MemTotal: 8000''])) = 8000
   \<and> total_kb MemoryInfo_init = 0"
proof -
  have l1: "getlines (text_of_lines [''MemTotal: 8000 MB'']) = [''MemTotal: 8000 MB'']"
    and l2: "getlines (text_of_lines [''MemTotal: 8000'']) = [''MemTotal: 8000'']"
    by code_simp+
  have m1: "\<And>i. meminfo_line ''MemTotal: 8000 MB'' i = i\<lparr>total_kb := 8000\<rparr>"
    by (simp add: meminfo_line_def stream_eval)
  have m2: "\<And>i. meminfo_line ''MemTotal: 8000'' i = i\<lparr>total_kb := 8000\<rparr>"
    by (simp add: meminfo_line_def stream_eval)
  show ?thesis
    by (simp add: getMemoryInfo_def l1 l2 m1 m2 MemoryInfo_init_def)
qed

section \<open>The mount-usage probe: which rows are kept\<close>

lemma mounts_loop_map_filter:
  "mounts_loop c ls acc = acc @ List.map_filter (mounts_line c) ls"
  by (induction ls arbitrary: acc) (auto simp: List.map_filter_simps split: option.splits)

lemma space_usage_fields: "row_fields (space_usage part st) = row_fields part"
  by (cases st) (simp_all add: space_usage_def row_fields_def Let_def)

lemma mount_fields_row:
  assumes "blank lead" and "field dev" and "blank s1" and "s1 \<noteq> []" and "field mp"
    and "blank s2" and "s2 \<noteq> []" and "field fs" and "blank s3" and "s3 \<noteq> []"
    and "field opts" and "ends_field rest"
  shows "mount_fields (lead @ dev @ s1 @ mp @ s2 @ fs @ s3 @ opts @ rest)
           = Some (dev, mp, fs, opts)"
proof -
  have e1: "extract_string (lead @ dev @ (s1 @ mp @ s2 @ fs @ s3 @ opts @ rest))
      = Some (dev, s1 @ mp @ s2 @ fs @ s3 @ opts @ rest)"
    using assms(1,2,3,4) by (intro extract_string_field) (simp_all add: blank_ends_field)
  have e2: "extract_string (s1 @ mp @ (s2 @ fs @ s3 @ opts @ rest))
      = Some (mp, s2 @ fs @ s3 @ opts @ rest)"
    using assms(3,5,6,7) by (intro extract_string_field) (simp_all add: blank_ends_field)
  have e3: "extract_string (s2 @ fs @ (s3 @ opts @ rest)) = Some (fs, s3 @ opts @ rest)"
    using assms(6,8,9,10) by (intro extract_string_field) (simp_all add: blank_ends_field)
  have e4: "extract_string (s3 @ opts @ rest) = Some (opts, rest)"
    using assms(9,11,12) by (intro extract_string_field)
  show ?thesis
    using e1 e2 e3 e4 by (simp add: mount_fields_def)
qed

lemma extract_string_blank: "blank s \<Longrightarrow> extract_string s = None"
  by (simp add: extract_string_def blank_def list_all_iff dropWhile_eq_Nil_conv)

lemma mount_fields_three:
  assumes "blank lead" and "field dev" and "blank s1" and "s1 \<noteq> []" and "field mp"
    and "blank s2" and "s2 \<noteq> []" and "field fs" and "blank trail"
  shows "mount_fields (lead @ dev @ s1 @ mp @ s2 @ fs @ trail) = None"
proof -
  have t: "ends_field trail"
    using assms(9) by (cases trail) (simp_all add: ends_field_def blank_def)
  have e1: "extract_string (lead @ dev @ (s1 @ mp @ s2 @ fs @ trail))
      = Some (dev, s1 @ mp @ s2 @ fs @ trail)"
    using assms(1,2,3,4) by (intro extract_string_field) (simp_all add: blank_ends_field)
  have e2: "extract_string (s1 @ mp @ (s2 @ fs @ trail)) = Some (mp, s2 @ fs @ trail)"
    using assms(3,5,6,7) by (intro extract_string_field) (simp_all add: blank_ends_field)
  have e3: "extract_string (s2 @ fs @ trail) = Some (fs, trail)"
    using assms(6,8) t by (intro extract_string_field)
  have e4: "extract_string trail = None"
    using assms(9) by (rule extract_string_blank)
  show ?thesis
    using e1 e2 e3 e4 by (simp add: mount_fields_def)
qed

text \<open>
  C9, as the code has it. A row of the mounts file is its fields separated by white
  space: device, mount point, filesystem type, options, and whatever follows. A row with
  these four fields produces a record, carrying the four fields, if and only if the
  device starts with \<^verbatim>\<open>/dev/\<close> and the filesystem type is none of \<^verbatim>\<open>proc\<close>, \<^verbatim>\<open>sysfs\<close>,
  \<^verbatim>\<open>devtmpfs\<close>, \<^verbatim>\<open>tmpfs\<close>. A row that ends after its filesystem type produces no
  record, whatever its device and filesystem type. The records are those of the lines of
  the file, in order.
\<close>

theorem getPartitionInfo_rows:
  assumes "blank lead" and "field dev" and "blank s1" and "s1 \<noteq> []" and "field mp"
    and "blank s2" and "s2 \<noteq> []" and "field fs"
  shows "(blank s3 \<and> s3 \<noteq> [] \<and> field opts \<and> ends_field rest \<longrightarrow>
           map_option row_fields
             (mounts_line statvfs_call (lead @ dev @ s1 @ mp @ s2 @ fs @ s3 @ opts @ rest))
           = (if prefix ''/dev/'' dev \<and> fs \<notin> {''proc'', ''sysfs'', ''devtmpfs'', ''tmpfs''}
              then Some (dev, mp, fs, opts) else None))
       \<and> (blank trail \<longrightarrow>
            mounts_line statvfs_call (lead @ dev @ s1 @ mp @ s2 @ fs @ trail) = None)
       \<and> getPartitionInfo statvfs_call file
            = List.map_filter (mounts_line statvfs_call) (getlines file)"
proof (intro conjI impI)
  assume a: "blank s3 \<and> s3 \<noteq> [] \<and> field opts \<and> ends_field rest"
  then have "mount_fields (lead @ dev @ s1 @ mp @ s2 @ fs @ s3 @ opts @ rest)
           = Some (dev, mp, fs, opts)"
    using assms by (intro mount_fields_row) simp_all
  then show "map_option row_fields
             (mounts_line statvfs_call (lead @ dev @ s1 @ mp @ s2 @ fs @ s3 @ opts @ rest))
           = (if prefix ''/dev/'' dev \<and> fs \<notin> {''proc'', ''sysfs'', ''devtmpfs'', ''tmpfs''}
              then Some (dev, mp, fs, opts) else None)"
    by (simp add: mounts_line_def find_str_prefix space_usage_fields)
       (simp add: row_fields_def)
next
  assume "blank trail"
  with assms have "mount_fields (lead @ dev @ s1 @ mp @ s2 @ fs @ trail) = None"
    by (intro mount_fields_three)
  then show "mounts_line statvfs_call (lead @ dev @ s1 @ mp @ s2 @ fs @ trail) = None"
    by (simp add: mounts_line_def)
next
  show "getPartitionInfo statvfs_call file
            = List.map_filter (mounts_line statvfs_call) (getlines file)"
    by (simp add: getPartitionInfo_def mounts_loop_map_filter)
qed

text \<open>
  The scenario of the specification: of four rows, the two on \<^verbatim>\<open>/dev/\<close> are kept; a
  \<^verbatim>\<open>tmpfs\<close> on a device and a row of three fields are not.
\<close>

theorem getPartitionInfo_rows_witness:
  "map_option row_fields (mounts_line no_statvfs ''/dev/sda1 / ext4 rw 0 0'')
     = Some (''/dev/sda1'', ''/'', ''ext4'', ''rw'')
   \<and> mounts_line no_statvfs ''/dev/sda1 / tmpfs rw 0 0'' = None
   \<and> mounts_line no_statvfs ''/dev/sda1 / ext4'' = None
   \<and> map row_fields
        (getPartitionInfo no_statvfs
          (text_of_lines [''/dev/sda1 / ext4 rw 0 0'', ''proc /proc proc rw 0 0'',
                          ''/dev/sdb2 /home xfs rw 0 0'', ''tmpfs /run tmpfs rw 0 0'']))
     = [(''/dev/sda1'', ''/'', ''ext4'', ''rw''), (''/dev/sdb2'', ''/home'', ''xfs'', ''rw'')]"
proof -
  have h: "blank []" "field ''/dev/sda1''" "blank '' ''" "'' '' \<noteq> []" "field ''/''"
    "blank '' ''" "'' '' \<noteq> []"
    by (simp_all add: blank_def field_def isspace_def)
  have f: "field ''ext4''" "field ''tmpfs''"
    by (simp_all add: field_def isspace_def)
  have o: "blank '' '' \<and> '' '' \<noteq> [] \<and> field ''rw'' \<and> ends_field '' 0 0''"
    by (simp add: blank_def field_def ends_field_def isspace_def)
  from getPartitionInfo_rows [OF h f(1), of "'' ''" "''rw''" "'' 0 0''" no_statvfs "[]"] o
  have a: "map_option row_fields (mounts_line no_statvfs ''/dev/sda1 / ext4 rw 0 0'')
     = Some (''/dev/sda1'', ''/'', ''ext4'', ''rw'')"
    by simp
  from getPartitionInfo_rows [OF h f(2), of "'' ''" "''rw''" "'' 0 0''" no_statvfs "[]"] o
  have "map_option row_fields (mounts_line no_statvfs ''/dev/sda1 / tmpfs rw 0 0'') = None"
    by simp
  then have b: "mounts_line no_statvfs ''/dev/sda1 / tmpfs rw 0 0'' = None"
    by simp
  from getPartitionInfo_rows [OF h f(1), of "[]" "[]" "[]" no_statvfs "[]"]
  have c: "mounts_line no_statvfs ''/dev/sda1 / ext4'' = None"
    by (simp add: blank_def)
  let ?file = "text_of_lines [''/dev/sda1 / ext4 rw 0 0'', ''proc /proc proc rw 0 0'',
                          ''/dev/sdb2 /home xfs rw 0 0'', ''tmpfs /run tmpfs rw 0 0'']"
  from getPartitionInfo_rows [OF h f(1), of "[]" "[]" "[]" no_statvfs "[]" ?file]
  have "getPartitionInfo no_statvfs ?file = List.map_filter (mounts_line no_statvfs) (getlines ?file)"
    by blast
  moreover have "map row_fields (List.map_filter (mounts_line no_statvfs) (getlines ?file))
     = [(''/dev/sda1'', ''/'', ''ext4'', ''rw''), (''/dev/sdb2'', ''/home'', ''xfs'', ''rw'')]"
    by code_simp
  ultimately have d: "map row_fields (getPartitionInfo no_statvfs ?file)
     = [(''/dev/sda1'', ''/'', ''ext4'', ''rw''), (''/dev/sdb2'', ''/home'', ''xfs'', ''rw'')]"
    by simp
  from a b c d show ?thesis by blast
qed

text \<open>
  C9 as the specification words it fails: the row \<^verbatim>\<open>/dev/sdc1 /mnt ext4\<close> has a device
  on \<^verbatim>\<open>/dev/\<close> and a filesystem type outside the four, and produces no record, since the
  probe keeps a row only when a fourth field can be read.
\<close>

theorem getPartitionInfo_three_fields_counterexample:
  "getPartitionInfo no_statvfs (text_of_lines [''/dev/sdc1 /mnt ext4'']) = []
   \<and> prefix ''/dev/'' ''/dev/sdc1''
   \<and> ''ext4'' \<notin> {''proc'', ''sysfs'', ''devtmpfs'', ''tmpfs''}"
  by code_simp

section \<open>The block-device inventory\<close>








section \<open>The per-process probe: skipping and stopping\<close>

lemma process_loop_append:
  "\<forall>e \<in> set pre. \<not> raises e \<Longrightarrow>
     process_loop (pre @ rest) acc = process_loop rest (acc @ qualifying pre)"
proof (induction pre arbitrary: acc)
  case Nil
  show ?case by (simp add: qualifying_def List.map_filter_simps)
next
  case (Cons e pre)
  then have ih: "\<And>acc. process_loop (pre @ rest) acc = process_loop rest (acc @ qualifying pre)"
    and e: "\<not> raises e"
    by simp_all
  from e obtain r where r: "examine_process e = Inr r"
    by (cases "examine_process e") (auto simp: raises_def)
  show ?case
    by (cases r) (simp_all add: r ih qualifying_def List.map_filter_simps)
qed

lemma status_loop_returns:
  "\<forall>l \<in> set ls. take 5 l \<noteq> ''Name:'' \<or> 6 \<le> length l \<Longrightarrow> \<exists>r. status_loop ls st = Inr r"
  by (induction ls arbitrary: st) (auto split: prod.splits option.splits)

lemma stoi_digits:
  assumes "ds \<noteq> []" and "\<forall>c \<in> set ds. isdigit c" and "digits_value ds < 2 ^ 31"
  shows "stoi ds = Inr (int (digits_value ds))"
proof -
  from assms(1,2) have hd: "isdigit (hd ds)"
    by (cases ds) auto
  then have "\<not> isspace (hd ds)"
    by (auto simp: isdigit_def isspace_def)
  then have d: "dropWhile isspace ds = ds"
    by (cases ds) auto
  from hd have s: "hd ds \<noteq> CHR ''-''" "hd ds \<noteq> CHR ''+''"
    by (auto simp: isdigit_def)
  have t: "takeWhile isdigit ds = ds"
    using assms(2) by simp
  have "(0::int) \<le> int (digits_value ds)" by simp
  then have "\<not> int (digits_value ds) < - (2 ^ 31)"
    by simp
  moreover from assms(3) have "int (digits_value ds) < 2 ^ 31"
    by (simp add: of_nat_less_numeral_power_cancel_iff)
  then have "\<not> 2 ^ 31 - 1 < int (digits_value ds)"
    by simp
  ultimately show ?thesis
    using assms(1) s by (simp add: stoi_def d t Let_def)
qed

lemma status_loop_returns':
  assumes "''Name:'' \<notin> set ls"
  shows "\<exists>r. status_loop ls st = Inr r"
proof (rule status_loop_returns, rule ballI)
  fix l assume "l \<in> set ls"
  with assms have ne: "l \<noteq> ''Name:''" by auto
  show "take 5 l \<noteq> ''Name:'' \<or> 6 \<le> length l"
  proof (rule ccontr)
    assume "\<not> (take 5 l \<noteq> ''Name:'' \<or> 6 \<le> length l)"
    then have t: "take 5 l = ''Name:''" and len: "length l < 6" by simp_all
    from t have "length (take 5 l) = 5" by simp
    then have "5 \<le> length l" by simp
    with len have "length l = 5" by simp
    with t have "l = ''Name:''" by simp
    with ne show False by simp
  qed
qed

lemma not_raises:
  assumes "dirname e \<noteq> []" and "digits_value (dirname e) < 2 ^ 31"
    and "\<forall>status. status_file e = Some status \<longrightarrow> ''Name:'' \<notin> set (getlines status)"
  shows "\<not> raises e"
proof (cases "is_directory e \<and> list_all isdigit (dirname e)")
  case False
  then show ?thesis by (auto simp: raises_def examine_process_def)
next
  case True
  then have "\<forall>c \<in> set (dirname e). isdigit c"
    by (simp add: list_all_iff)
  with assms(1,2) have p: "stoi (dirname e) = Inr (int (digits_value (dirname e)))"
    by (intro stoi_digits)
  show ?thesis
  proof (cases "status_file e")
    case None
    with True p show ?thesis by (simp add: raises_def examine_process_def)
  next
    case (Some status)
    with assms(3) have "''Name:'' \<notin> set (getlines status)" by simp
    then obtain r where "status_loop (getlines status) ([], 0) = Inr r"
      using status_loop_returns' by blast
    with True p Some show ?thesis
      by (cases r) (simp add: raises_def examine_process_def Let_def)
  qed
qed

lemma status_loop_bare_name:
  "status_loop (''Name:'' # ls) st =
     Inl (out_of_range ''basic_string::substr: __pos (which is 6) > this->size() (which is 5)'')"
  by simp

text \<open>The insertion sort meets the contract of \<^verbatim>\<open>std::sort\<close> and keeps ties in order.\<close>

lemma insert_by_memory_mset: "mset (insert_by_memory p qs) = add_mset p (mset qs)"
  by (induction qs) auto

lemma insert_by_memory_set: "set (insert_by_memory p qs) = insert p (set qs)"
  by (induction qs) auto

lemma insert_by_memory_sorted:
  "by_memory_descending qs \<Longrightarrow> by_memory_descending (insert_by_memory p qs)"
  unfolding by_memory_descending_def
  by (induction qs) (auto simp: insert_by_memory_set)

lemma foldl_insert_by_memory:
  "by_memory_descending acc \<Longrightarrow>
     by_memory_descending (foldl (\<lambda>sorted p. insert_by_memory p sorted) acc ps)
     \<and> mset (foldl (\<lambda>sorted p. insert_by_memory p sorted) acc ps) = mset acc + mset ps"
  by (induction ps arbitrary: acc) (simp_all add: insert_by_memory_sorted insert_by_memory_mset)

lemma sort_by_memory_contract: "std_sort_contract sort_by_memory"
  using foldl_insert_by_memory [of "[]"]
  by (simp add: std_sort_contract_def sort_by_memory_def by_memory_descending_def)

lemma sort_by_memory_ties:
  "memory_kb p = memory_kb q \<Longrightarrow> sort_by_memory [p, q] = [p, q]"
  by (simp add: sort_by_memory_def)

text \<open>
  C3, as the code has it, for every sort that meets the contract of \<^verbatim>\<open>std::sort\<close>. An
  entry that is passed over without an exception (not a directory, a name that is not all
  digits, a status file that cannot be opened, no name or no positive resident set)
  affects no other entry: when no entry raises, the result is the qualifying records of
  all entries, sorted and cut to the limit, and nothing is written; if the limit is not
  below their number, the result holds every qualifying record. The handler is outside
  the loop, so the first entry that raises ends the enumeration: the result is made of
  the qualifying records before it, the entries after it are not examined, and one
  warning is written. In both cases the result is in descending order of
  \<^verbatim>\<open>memory_kb\<close>. An entry whose name is a number below \<open>2^31\<close> and whose status file has
  no line that is exactly \<^verbatim>\<open>Name:\<close> does not raise.
\<close>

theorem getTopProcesses_skips_or_stops:
  assumes "std_sort_contract std_sort"
  shows
  "((\<forall>e \<in> set entries. \<not> raises e) \<longrightarrow>
      getTopProcesses std_sort use_colors limit entries
        = (take (nat (limit mod 2 ^ 64)) (std_sort (qualifying entries)), []))
   \<and> ((\<forall>e \<in> set entries. \<not> raises e) \<and> int (length (qualifying entries)) \<le> limit mod 2 ^ 64 \<longrightarrow>
      mset (fst (getTopProcesses std_sort use_colors limit entries)) = mset (qualifying entries))
   \<and> ((\<forall>e \<in> set pre. \<not> raises e) \<and> raises bad \<longrightarrow>
      getTopProcesses std_sort use_colors limit (pre @ bad # post)
        = (take (nat (limit mod 2 ^ 64)) (std_sort (qualifying pre)),
           [process_warning use_colors]))
   \<and> by_memory_descending (fst (getTopProcesses std_sort use_colors limit entries))
   \<and> (dirname e \<noteq> [] \<and> digits_value (dirname e) < 2 ^ 31
       \<and> (\<forall>status. status_file e = Some status \<longrightarrow> ''Name:'' \<notin> set (getlines status))
      \<longrightarrow> \<not> raises e)"
proof (intro conjI impI)
  assume "\<forall>e \<in> set entries. \<not> raises e"
  then show "getTopProcesses std_sort use_colors limit entries
        = (take (nat (limit mod 2 ^ 64)) (std_sort (qualifying entries)), [])"
    using process_loop_append [of entries "[]" "[]"]
    by (simp add: getTopProcesses_def)
next
  assume a: "(\<forall>e \<in> set entries. \<not> raises e)
      \<and> int (length (qualifying entries)) \<le> limit mod 2 ^ 64"
  then have r: "getTopProcesses std_sort use_colors limit entries
        = (take (nat (limit mod 2 ^ 64)) (std_sort (qualifying entries)), [])"
    using process_loop_append [of entries "[]" "[]"]
    by (simp add: getTopProcesses_def)
  from assms have m: "mset (std_sort (qualifying entries)) = mset (qualifying entries)"
    by (simp add: std_sort_contract_def)
  then have "length (std_sort (qualifying entries)) = length (qualifying entries)"
    by (metis size_mset)
  moreover from a have "length (qualifying entries) \<le> nat (limit mod 2 ^ 64)"
    by arith
  ultimately have "take (nat (limit mod 2 ^ 64)) (std_sort (qualifying entries))
      = std_sort (qualifying entries)"
    by simp
  with r m show "mset (fst (getTopProcesses std_sort use_colors limit entries))
      = mset (qualifying entries)"
    by simp
next
  assume a: "(\<forall>e \<in> set pre. \<not> raises e) \<and> raises bad"
  then obtain ex where ex: "examine_process bad = Inl ex"
    by (cases "examine_process bad") (auto simp: raises_def)
  from a have "process_loop (pre @ bad # post) [] = process_loop (bad # post) ([] @ qualifying pre)"
    by (intro process_loop_append) simp
  then have "process_loop (pre @ bad # post) [] = (qualifying pre, Some ex)"
    by (simp add: ex)
  then show "getTopProcesses std_sort use_colors limit (pre @ bad # post)
        = (take (nat (limit mod 2 ^ 64)) (std_sort (qualifying pre)),
           [process_warning use_colors])"
    by (simp add: getTopProcesses_def process_warning_def)
next
  obtain ps thrown where "process_loop entries [] = (ps, thrown)"
    by (cases "process_loop entries []")
  then have "fst (getTopProcesses std_sort use_colors limit entries)
      = take (nat (limit mod 2 ^ 64)) (std_sort ps)"
    by (simp add: getTopProcesses_def)
  moreover from assms have "by_memory_descending (std_sort ps)"
    by (simp add: std_sort_contract_def)
  ultimately show "by_memory_descending (fst (getTopProcesses std_sort use_colors limit entries))"
    by (simp add: by_memory_descending_def sorted_wrt_take)
next
  assume "dirname e \<noteq> [] \<and> digits_value (dirname e) < 2 ^ 31
       \<and> (\<forall>status. status_file e = Some status \<longrightarrow> ''Name:'' \<notin> set (getlines status))"
  then show "\<not> raises e"
    by (intro not_raises) simp_all
qed

lemma examine_init:
  "examine_process (proc_fixture ''1'' ''init'' ''100'')
     = Inr (Some \<lparr> pid = 1, name = ''init'', memory_kb = 100, cmd = [] \<rparr>)"
proof -
  have l: "getlines (text_of_lines [''Name:'' @ [CHR 0x09] @ ''init'',
                                   ''VmRSS:'' @ [CHR 0x09] @ ''100'' @ '' kB''])
      = [''Name:'' @ [CHR 0x09] @ ''init'', ''VmRSS:'' @ [CHR 0x09] @ ''100'' @ '' kB'']"
    by code_simp
  have s: "status_loop [''Name:'' @ [CHR 0x09] @ ''init'', ''VmRSS:'' @ [CHR 0x09] @ ''100'' @ '' kB'']
             ([], 0) = Inr (''init'', 100)"
    by (simp add: stream_eval)
  have p: "stoi ''1'' = Inr 1"
    by code_simp
  have d: "list_all isdigit ''1''"
    by code_simp
  show ?thesis
    using d by (simp add: examine_process_def proc_fixture_def l [simplified] s [simplified] p
        read_cmdline_def)
qed

lemma examine_kthreadd:
  "examine_process (proc_fixture ''2'' ''kthreadd'' ''300'')
     = Inr (Some \<lparr> pid = 2, name = ''kthreadd'', memory_kb = 300, cmd = [] \<rparr>)"
proof -
  have l: "getlines (text_of_lines [''Name:'' @ [CHR 0x09] @ ''kthreadd'',
                                   ''VmRSS:'' @ [CHR 0x09] @ ''300'' @ '' kB''])
      = [''Name:'' @ [CHR 0x09] @ ''kthreadd'', ''VmRSS:'' @ [CHR 0x09] @ ''300'' @ '' kB'']"
    by code_simp
  have s: "status_loop [''Name:'' @ [CHR 0x09] @ ''kthreadd'',
                        ''VmRSS:'' @ [CHR 0x09] @ ''300'' @ '' kB'']
             ([], 0) = Inr (''kthreadd'', 300)"
    by (simp add: stream_eval)
  have p: "stoi ''2'' = Inr 2"
    by code_simp
  have d: "list_all isdigit ''2''"
    by code_simp
  show ?thesis
    using d by (simp add: examine_process_def proc_fixture_def l [simplified] s [simplified] p
        read_cmdline_def)
qed

lemma examine_overflow:
  "examine_process (proc_fixture ''99999999999'' ''big'' ''5'') = Inl (out_of_range ''stoi'')"
proof -
  have p: "stoi ''99999999999'' = Inl (out_of_range ''stoi'')"
    by (simp add: stoi_def isspace_def isdigit_def digits_value_def digit_value_def)
  have d: "list_all isdigit ''99999999999''"
    by code_simp
  show ?thesis
    using d by (simp add: examine_process_def proc_fixture_def p)
qed

lemma examine_no_status:
  "examine_process \<lparr> is_directory = True, dirname = ''7'', status_file = None,
                     cmdline_file = None \<rparr> = Inr None"
proof -
  have p: "stoi ''7'' = Inr 7"
    by code_simp
  have d: "list_all isdigit ''7''"
    by code_simp
  show ?thesis
    using d by (simp add: examine_process_def p)
qed

theorem getTopProcesses_skips_or_stops_witness:
  "getTopProcesses sort_by_memory False 15
     [proc_fixture ''1'' ''init'' ''100'',
      \<lparr> is_directory = True, dirname = ''7'', status_file = None, cmdline_file = None \<rparr>,
      proc_fixture ''2'' ''kthreadd'' ''300'']
     = ([\<lparr> pid = 2, name = ''kthreadd'', memory_kb = 300, cmd = [] \<rparr>,
         \<lparr> pid = 1, name = ''init'', memory_kb = 100, cmd = [] \<rparr>], [])
   \<and> getTopProcesses sort_by_memory False 15
       ([proc_fixture ''1'' ''init'' ''100''] @ proc_fixture ''99999999999'' ''big'' ''5''
          # [proc_fixture ''2'' ''kthreadd'' ''300''])
     = ([\<lparr> pid = 1, name = ''init'', memory_kb = 100, cmd = [] \<rparr>],
        [''Warning: Could not read all process information''])
   \<and> \<not> raises (proc_fixture ''1'' ''init'' ''100'')"
proof -
  let ?init = "proc_fixture ''1'' ''init'' ''100''"
  let ?none = "\<lparr> is_directory = True, dirname = ''7'', status_file = None,
                  cmdline_file = None \<rparr>"
  let ?kthreadd = "proc_fixture ''2'' ''kthreadd'' ''300''"
  let ?big = "proc_fixture ''99999999999'' ''big'' ''5''"
  note examined = examine_init examine_no_status examine_kthreadd examine_overflow
  have fine: "\<forall>e \<in> set [?init, ?none, ?kthreadd]. \<not> raises e"
    by (simp add: raises_def examined)
  have q3: "qualifying [?init, ?none, ?kthreadd]
      = [\<lparr> pid = 1, name = ''init'', memory_kb = 100, cmd = [] \<rparr>,
         \<lparr> pid = 2, name = ''kthreadd'', memory_kb = 300, cmd = [] \<rparr>]"
    by (simp add: qualifying_def List.map_filter_simps examined)
  have q1: "qualifying [?init] = [\<lparr> pid = 1, name = ''init'', memory_kb = 100, cmd = [] \<rparr>]"
    by (simp add: qualifying_def List.map_filter_simps examined)
  have stop: "(\<forall>e \<in> set [?init]. \<not> raises e) \<and> raises ?big"
    by (simp add: raises_def examined)
  have l: "getlines (text_of_lines [''Name:'' @ [CHR 0x09] @ ''init'',
                                   ''VmRSS:'' @ [CHR 0x09] @ ''100'' @ '' kB''])
      = [''Name:'' @ [CHR 0x09] @ ''init'', ''VmRSS:'' @ [CHR 0x09] @ ''100'' @ '' kB'']"
    by code_simp
  have v: "digits_value ''1'' = 1"
    by (simp add: digits_value_def digit_value_def)
  have quiet: "dirname ?init \<noteq> [] \<and> digits_value (dirname ?init) < 2 ^ 31
       \<and> (\<forall>status. status_file ?init = Some status \<longrightarrow> ''Name:'' \<notin> set (getlines status))"
    by (simp add: proc_fixture_def l [simplified] v)
  note claim = getTopProcesses_skips_or_stops [OF sort_by_memory_contract,
    where entries = "[?init, ?none, ?kthreadd]" and use_colors = False and limit = 15
      and pre = "[?init]" and bad = ?big and post = "[?kthreadd]" and e = ?init]
  from claim fine have a: "getTopProcesses sort_by_memory False 15 [?init, ?none, ?kthreadd]
      = (take (nat (15 mod 2 ^ 64)) (sort_by_memory (qualifying [?init, ?none, ?kthreadd])), [])"
    by blast
  from claim stop have b: "getTopProcesses sort_by_memory False 15 ([?init] @ ?big # [?kthreadd])
      = (take (nat (15 mod 2 ^ 64)) (sort_by_memory (qualifying [?init])),
         [process_warning False])"
    by blast
  from claim quiet have c: "\<not> raises ?init"
    by blast
  show ?thesis
    unfolding a b q3 q1 using c
    by (simp add: sort_by_memory_def process_warning_def colorize_def)
qed

text \<open>
  C3 as the specification words it fails: a directory whose digits overflow \<^verbatim>\<open>int\<close>
  comes first, and the qualifying process after it is not emitted.
\<close>

theorem getTopProcesses_skip_counterexample:
  "examine_process (proc_fixture ''2'' ''kthreadd'' ''300'')
     = Inr (Some \<lparr> pid = 2, name = ''kthreadd'', memory_kb = 300, cmd = [] \<rparr>)
   \<and> getTopProcesses sort_by_memory False 15
       [proc_fixture ''99999999999'' ''big'' ''5'', proc_fixture ''2'' ''kthreadd'' ''300'']
     = ([], [''Warning: Could not read all process information''])"
  by (simp add: examine_kthreadd examine_overflow getTopProcesses_def sort_by_memory_def
      colorize_def)

section \<open>The distro-identity probe on an empty value\<close>

text \<open>On ordinary input the quotes around a value are removed and bare values are kept.\<close>

lemma getDistroInfo_scenario:
  "getDistroInfo (text_of_lines [''NAME='' @ [CHR 0x22] @ ''Ubuntu'' @ [CHR 0x22],
                                 ''VERSION_ID=22.04''])
     = Inr (DistroInfo_init\<lparr>distro_name := ''Ubuntu'', version_id := ''22.04''\<rparr>)"
  by code_simp

text \<open>
  C10. An os-release line whose value after \<^verbatim>\<open>=\<close> is empty makes the quote-stripping
  step access the first character of an empty string: with the access as an \<open>option\<close>,
  the step ends in its error branch, and so does the probe on a file with such a line.
\<close>

theorem getDistroInfo_empty_value:
  "remove_quotes [] = Inl empty_string_access
   \<and> distro_line ''VERSION_CODENAME='' info = Inl empty_string_access
   \<and> getDistroInfo (text_of_lines [''NAME=Ubuntu'', ''VERSION_CODENAME='', ''ID=ubuntu''])
       = Inl empty_string_access"
  by code_simp

end
